theory Spec2Isabelle
  imports Main "HOL-Library.Multiset"
begin

section \<open>Strings and numbers of the host language\<close>

text \<open>
  A string is a list of characters, each a code unit from 0 to 255 that stands for the
  code point of the same number (Latin-1); strings with other code points are outside
  the model. A JavaScript number that comes out of \<open>parseInt\<close> is an integer or
  \<open>NaN\<close>; \<open>undefined\<close> and \<open>null\<close> are the \<open>None\<close> of an option type.
\<close>

datatype number = NaN | Num int

text \<open>
  The white space of \<open>trim\<close>, of \<open>parseInt\<close> and of the white-space class of a
  regular expression: tab, line feed, vertical tab, form feed, carriage return, space
  and the no-break space U+00A0.
\<close>

definition isWhitespace :: "char \<Rightarrow> bool" where
  "isWhitespace c =
     (c = CHR 0x09 \<or> c = CHR 0x0A \<or> c = CHR 0x0B \<or> c = CHR 0x0C \<or> c = CHR 0x0D \<or> c = CHR '' '' \<or>
      c = CHR 0xA0)"

definition trim :: "string \<Rightarrow> string" where
  "trim s = rev (dropWhile isWhitespace (rev (dropWhile isWhitespace s)))"

text \<open>
  \<open>toLowerCase\<close> moves \<open>A\<close> to \<open>Z\<close> and the accented capitals U+00C0 to U+00DE,
  the multiplication sign U+00D7 apart, 32 places up.
\<close>

definition lowerChar :: "char \<Rightarrow> char" where
  "lowerChar c =
     (let n = (of_char c :: nat)
      in if (65 \<le> n \<and> n \<le> 90) \<or> (192 \<le> n \<and> n \<le> 222 \<and> n \<noteq> 215) then char_of (n + 32) else c)"

definition toLowerCase :: "string \<Rightarrow> string" where
  "toLowerCase s = map lowerChar s"

text \<open>\<open>s.split(sep)\<close> for a one-character separator: \<open>"".split("@")\<close> is \<open>[""]\<close>.\<close>

fun split :: "char \<Rightarrow> string \<Rightarrow> string list" where
  "split sep [] = [[]]"
| "split sep (c # cs) =
     (if c = sep then [] # split sep cs
      else (case split sep cs of
              [] \<Rightarrow> [[c]]
            | p # ps \<Rightarrow> (c # p) # ps))"

definition startsWith :: "string \<Rightarrow> string \<Rightarrow> bool" where
  "startsWith s p = (take (length p) s = p)"

definition isDigit :: "char \<Rightarrow> bool" where
  "isDigit c = (let n = (of_char c :: nat) in 48 \<le> n \<and> n \<le> 57)"

definition isHexDigit :: "char \<Rightarrow> bool" where
  "isHexDigit c =
     (let n = (of_char c :: nat)
      in (48 \<le> n \<and> n \<le> 57) \<or> (65 \<le> n \<and> n \<le> 70) \<or> (97 \<le> n \<and> n \<le> 102))"

definition digitValue :: "char \<Rightarrow> int" where
  "digitValue c =
     (let n = (of_char c :: nat)
      in if n \<le> 57 then int n - 48 else if n \<le> 70 then int n - 55 else int n - 87)"

definition digitsValue :: "int \<Rightarrow> string \<Rightarrow> int" where
  "digitsValue radix ds = foldl (\<lambda>acc c. acc * radix + digitValue c) 0 ds"

text \<open>
  \<open>parseInt(s)\<close> with no radix: leading white space is skipped, a sign is read, a
  \<open>0x\<close> prefix selects base 16, the longest run of digits is taken, and no digit at all
  gives \<open>NaN\<close>.
\<close>

definition parseInt :: "string \<Rightarrow> number" where
  "parseInt s =
     (let s1 = dropWhile isWhitespace s;
          neg = (take 1 s1 = ''-'');
          s2 = (if take 1 s1 = ''-'' \<or> take 1 s1 = ''+'' then drop 1 s1 else s1);
          hex = (take 2 s2 = ''0x'' \<or> take 2 s2 = ''0X'');
          s3 = (if hex then drop 2 s2 else s2);
          ds = (if hex then takeWhile isHexDigit s3 else takeWhile isDigit s3);
          v = digitsValue (if hex then 16 else 10) ds
      in if ds = [] then NaN else Num (if neg then - v else v))"


section \<open>SMTP deliverability client (src/client/smtp.ts)\<close>

record MxRecord =
  exchange :: string
  priority :: int

record SmtpValidationConfig =
  timeout :: int
  port :: int
  fromEmail :: string
  helo :: string

text \<open>The local variables of \<open>testSmtpConnection\<close>, with the lines written to the socket.\<close>

record Dialogue =
  step :: nat
  responseCode :: number
  responseMessage :: string
  isDeliverable :: bool
  written :: "string list"

record SmtpConnectionResult =
  isValid :: bool
  isDeliverable :: bool
  mxRecord :: "string option"
  responseCode :: "number option"
  responseMessage :: "string option"
  error :: "string option"

record SmtpValidationResult =
  email :: string
  domain :: string
  isValid :: bool
  isMailboxValid :: bool
  mxRecord :: "string option"
  responseCode :: "number option"
  responseMessage :: "string option"
  validationTime :: int
  errors :: "string list"
  warnings :: "string list"

text \<open>
  What the socket delivers to the listeners of one connection, in order. The timer armed
  with \<open>config.timeout\<close> fires when the events are used up before the promise is resolved.
\<close>

datatype SocketEvent = Data string | SocketError string | Close

text \<open>
  One connection attempt as the network decides it: the promise executor throws (for
  instance \<open>socket.connect\<close> on a port out of range), or the socket delivers events.
\<close>

datatype Connection = Throws string | Events "SocketEvent list"

definition crlf :: string where
  "crlf = [CHR 0x0D, CHR 0x0A]"

definition initialDialogue :: Dialogue where
  "initialDialogue =
     \<lparr>step = 0, Dialogue.responseCode = Num 0, Dialogue.responseMessage = [],
      Dialogue.isDeliverable = False, written = []\<rparr>"

text \<open>
  The object a failed attempt is resolved with; \<open>responseCode\<close> and \<open>responseMessage\<close>
  are present only when the failure is raised inside the \<open>data\<close> listener.
\<close>

definition failed :: "number option \<Rightarrow> string option \<Rightarrow> string \<Rightarrow> SmtpConnectionResult" where
  "failed code msg err =
     \<lparr>SmtpConnectionResult.isValid = False, SmtpConnectionResult.isDeliverable = False,
      SmtpConnectionResult.mxRecord = None, SmtpConnectionResult.responseCode = code,
      SmtpConnectionResult.responseMessage = msg, SmtpConnectionResult.error = Some err\<rparr>"

definition protocolError :: "Dialogue \<Rightarrow> string \<Rightarrow> SmtpConnectionResult" where
  "protocolError d err =
     failed (Some (Dialogue.responseCode d)) (Some (Dialogue.responseMessage d)) err"

text \<open>
  The \<open>data\<close> listener: the new local variables, and the value the promise is resolved
  with when this event resolves it.
\<close>

definition onData ::
  "SmtpValidationConfig \<Rightarrow> string \<Rightarrow> string \<Rightarrow> Dialogue \<Rightarrow> string
     \<Rightarrow> Dialogue \<times> SmtpConnectionResult option" where
  "onData config server em d0 dat =
     (let response = trim dat;
          code = parseInt (take 3 response);
          d = d0\<lparr>Dialogue.responseCode := code, Dialogue.responseMessage := response\<rparr>
      in if step d = 0 then
           (if code = Num 220
            then (d\<lparr>written := written d @ [''HELO '' @ helo config @ crlf], step := step d + 1\<rparr>,
                  None)
            else (d, Some (protocolError d (''Unexpected greeting: '' @ response))))
         else if step d = 1 then
           (if code = Num 250
            then (d\<lparr>written := written d @ [''MAIL FROM:<'' @ fromEmail config @ ''>'' @ crlf],
                    step := step d + 1\<rparr>, None)
            else (d, Some (protocolError d (''HELO failed: '' @ response))))
         else if step d = 2 then
           (if code = Num 250
            then (d\<lparr>written := written d @ [''RCPT TO:<'' @ em @ ''>'' @ crlf],
                    step := step d + 1\<rparr>, None)
            else (d, Some (protocolError d (''MAIL FROM failed: '' @ response))))
         else if step d = 3 then
           (d\<lparr>Dialogue.isDeliverable := (code = Num 250),
              written := written d @ [''QUIT'' @ crlf], step := step d + 1\<rparr>, None)
         else if step d = 4 then
           (d, Some \<lparr>SmtpConnectionResult.isValid = True,
                     SmtpConnectionResult.isDeliverable = Dialogue.isDeliverable d,
                     SmtpConnectionResult.mxRecord = Some server,
                     SmtpConnectionResult.responseCode = Some (Dialogue.responseCode d),
                     SmtpConnectionResult.responseMessage = Some (Dialogue.responseMessage d),
                     SmtpConnectionResult.error = None\<rparr>)
         else (d, None))"

fun runDialogue ::
  "SmtpValidationConfig \<Rightarrow> string \<Rightarrow> string \<Rightarrow> Dialogue \<Rightarrow> SocketEvent list
     \<Rightarrow> SmtpConnectionResult" where
  "runDialogue config server em d [] = failed None None ''Connection timeout''"
| "runDialogue config server em d (Data dat # evs) =
     (case onData config server em d dat of
        (d', Some r) \<Rightarrow> r
      | (d', None) \<Rightarrow> runDialogue config server em d' evs)"
| "runDialogue config server em d (SocketError msg # evs) =
     failed None None (''Connection failed: '' @ msg)"
| "runDialogue config server em d (Close # evs) =
     (if step d < 4
      then failed None None ''Connection closed unexpectedly''
      else runDialogue config server em d evs)"

text \<open>\<open>Inl\<close> is the rejection of the promise, \<open>Inr\<close> the value it is resolved with.\<close>

definition testSmtpConnection ::
  "SmtpValidationConfig \<Rightarrow> string \<Rightarrow> string \<Rightarrow> Connection \<Rightarrow> string + SmtpConnectionResult" where
  "testSmtpConnection config server em conn =
     (case conn of
        Throws msg \<Rightarrow> Inl msg
      | Events evs \<Rightarrow> Inr (runDialogue config server em initialDialogue evs))"

text \<open>\<open>validationResult.error || "Unable to verify mailbox via SMTP"\<close>\<close>

definition warningOf :: "SmtpConnectionResult \<Rightarrow> string" where
  "warningOf validationResult =
     (case error validationResult of
        None \<Rightarrow> ''Unable to verify mailbox via SMTP''
      | Some e \<Rightarrow> if e = [] then ''Unable to verify mailbox via SMTP'' else e)"

text \<open>
  The loop of \<open>validateEmail\<close> over the candidate servers. \<open>net i server\<close> is what the
  network does on the \<open>i\<close>-th connection of the call, made to \<open>server\<close>. The second
  component lists the servers a connection was opened to, in order.
\<close>

fun tryServers ::
  "SmtpValidationConfig \<Rightarrow> string \<Rightarrow> (nat \<Rightarrow> string \<Rightarrow> Connection) \<Rightarrow> nat \<Rightarrow> string list
     \<Rightarrow> SmtpValidationResult \<Rightarrow> string list \<Rightarrow> SmtpValidationResult \<times> string list" where
  "tryServers config em net i [] result tried = (result, tried)"
| "tryServers config em net i (server # servers) result tried =
     (case testSmtpConnection config server em (net i server) of
        Inl errorMsg \<Rightarrow>
          tryServers config em net (i + 1) servers
            (result\<lparr>errors := errors result @ [''SMTP validation failed: '' @ errorMsg]\<rparr>)
            (tried @ [server])
      | Inr validationResult \<Rightarrow>
          if SmtpConnectionResult.isValid validationResult
          then (result\<lparr>SmtpValidationResult.isValid := True,
                       isMailboxValid := SmtpConnectionResult.isValid validationResult,
                       SmtpValidationResult.mxRecord := SmtpConnectionResult.mxRecord validationResult,
                       SmtpValidationResult.responseCode :=
                         SmtpConnectionResult.responseCode validationResult,
                       SmtpValidationResult.responseMessage :=
                         SmtpConnectionResult.responseMessage validationResult\<rparr>,
                tried @ [server])
          else tryServers config em net (i + 1) servers
                 (result\<lparr>warnings := warnings result @ [warningOf validationResult]\<rparr>)
                 (tried @ [server]))"

text \<open>
  \<open>mxRecords?.map((mx) => mx.exchange) || [domain]\<close>: an empty array is truthy, so the
  bare domain is the candidate only when \<open>mxRecords\<close> is absent.
\<close>

definition candidateServers :: "string \<Rightarrow> MxRecord list option \<Rightarrow> string list" where
  "candidateServers domainPart mxRecords =
     (case mxRecords of
        None \<Rightarrow> [domainPart]
      | Some mxs \<Rightarrow> map exchange mxs)"

definition emptySmtpResult :: "string \<Rightarrow> SmtpValidationResult" where
  "emptySmtpResult em =
     \<lparr>email = em, domain = [], isValid = False, isMailboxValid = False,
      mxRecord = None, responseCode = None, responseMessage = None,
      validationTime = 0, errors = [], warnings = []\<rparr>"

text \<open>\<open>validateEmail(email, mxRecords)\<close>, with the two readings of the clock as arguments.\<close>

definition validateEmailRun ::
  "SmtpValidationConfig \<Rightarrow> (nat \<Rightarrow> string \<Rightarrow> Connection) \<Rightarrow> int \<Rightarrow> int \<Rightarrow> string
     \<Rightarrow> MxRecord list option \<Rightarrow> SmtpValidationResult \<times> string list" where
  "validateEmailRun config net startTime endTime em mxRecords =
     (let result = emptySmtpResult em;
          parts = split CHR ''@'' em;
          localPart = hd parts;
          domainPart = (if length parts < 2 then None else Some (parts ! 1))
      in if localPart = [] \<or> domainPart = None \<or> domainPart = Some []
         then (result\<lparr>errors := errors result @ [''Invalid email format''],
                      validationTime := endTime - startTime\<rparr>, [])
         else
           (let result1 = result\<lparr>domain := the domainPart\<rparr>;
                servers = candidateServers (the domainPart) mxRecords;
                (result2, tried) = tryServers config em net 0 servers result1 []
            in (result2\<lparr>validationTime := endTime - startTime\<rparr>, tried)))"

definition validateEmail ::
  "SmtpValidationConfig \<Rightarrow> (nat \<Rightarrow> string \<Rightarrow> Connection) \<Rightarrow> int \<Rightarrow> int \<Rightarrow> string
     \<Rightarrow> MxRecord list option \<Rightarrow> SmtpValidationResult" where
  "validateEmail config net startTime endTime em mxRecords =
     fst (validateEmailRun config net startTime endTime em mxRecords)"

definition attemptedServers ::
  "SmtpValidationConfig \<Rightarrow> (nat \<Rightarrow> string \<Rightarrow> Connection) \<Rightarrow> int \<Rightarrow> int \<Rightarrow> string
     \<Rightarrow> MxRecord list option \<Rightarrow> string list" where
  "attemptedServers config net startTime endTime em mxRecords =
     snd (validateEmailRun config net startTime endTime em mxRecords)"

text \<open>
  What each candidate's connection attempt gives when it is made, whether or not the loop
  gets that far; the text before the first \<open>@\<close>, and the text between the first
  \<open>@\<close> and the next one.
\<close>

fun attempts ::
  "SmtpValidationConfig \<Rightarrow> string \<Rightarrow> (nat \<Rightarrow> string \<Rightarrow> Connection) \<Rightarrow> nat \<Rightarrow> string list
     \<Rightarrow> (string + SmtpConnectionResult) list" where
  "attempts config em net i [] = []"
| "attempts config em net i (server # servers) =
     testSmtpConnection config server em (net i server) # attempts config em net (i + 1) servers"

definition succeeded :: "string + SmtpConnectionResult \<Rightarrow> bool" where
  "succeeded a = (case a of Inl e \<Rightarrow> False | Inr r \<Rightarrow> SmtpConnectionResult.isValid r)"

definition warningsFor :: "(string + SmtpConnectionResult) list \<Rightarrow> string list" where
  "warningsFor atts = concat (map (\<lambda>a. case a of Inl e \<Rightarrow> [] | Inr r \<Rightarrow> [warningOf r]) atts)"

definition errorsFor :: "(string + SmtpConnectionResult) list \<Rightarrow> string list" where
  "errorsFor atts =
     concat (map (\<lambda>a. case a of Inl e \<Rightarrow> [''SMTP validation failed: '' @ e] | Inr r \<Rightarrow> []) atts)"

text \<open>The attempts that come before the first attempt that succeeds.\<close>

definition failedAttempts ::
  "(string + SmtpConnectionResult) list \<Rightarrow> (string + SmtpConnectionResult) list" where
  "failedAttempts atts = takeWhile (\<lambda>a. \<not> succeeded a) atts"

definition localPartOf :: "string \<Rightarrow> string" where
  "localPartOf em = takeWhile (\<lambda>c. c \<noteq> CHR ''@'') em"

definition domainOf :: "string \<Rightarrow> string" where
  "domainOf em =
     takeWhile (\<lambda>c. c \<noteq> CHR ''@'') (drop 1 (dropWhile (\<lambda>c. c \<noteq> CHR ''@'') em))"

text \<open>The configuration and the networks of the scenarios below.\<close>

definition defaultConfig :: SmtpValidationConfig where
  "defaultConfig =
     \<lparr>timeout = 10000, port = 25, fromEmail = ''test@example.com'', helo = ''mail.example.com''\<rparr>"

definition rcptRejected :: "nat \<Rightarrow> string \<Rightarrow> Connection" where
  "rcptRejected i server =
     Events [Data ''220 mx ESMTP'', Data ''250 hello'', Data ''250 sender ok'',
             Data ''550 no such user'', Data ''221 bye'']"


definition silent :: "nat \<Rightarrow> string \<Rightarrow> Connection" where
  "silent i server = Events []"




definition unsortedMx :: "MxRecord list" where
  "unsortedMx =
     [\<lparr>exchange = ''mx2.example.com'', priority = 20\<rparr>,
      \<lparr>exchange = ''mx1.example.com'', priority = 10\<rparr>]"





section \<open>DNS resolver (dns-resolver.ts)\<close>

record DnsResolverConfig =
  timeout :: int
  retries :: int
  enableCaching :: bool
  cacheSize :: int
  cacheTtl :: int
  concurrency :: int
  validateMxConnectivity :: bool
  checkSpfRecord :: bool
  checkDmarcRecord :: bool

record DnsValidationResult =
  domain :: string
  hasMx :: bool
  mxRecords :: "MxRecord list"
  hasSpf :: bool
  hasDmarc :: bool
  isConnectable :: bool
  validationTime :: int
  errors :: "string list"
  warnings :: "string list"

text \<open>
  The name servers, as the promise API of the \<open>dns\<close> module reports them
  (\<open>import { promises as dns } from "dns"\<close>). The promise that \<open>dns.resolveMx(domain)\<close>
  returns, told apart by the number of the attempt, is resolved with records, is rejected
  with a message, or stays pending; likewise the promise of \<open>dns.resolveTxt(name)\<close>.
  \<open>connects host\<close> tells whether port 25 of the host accepts a connection within three
  seconds.
\<close>

datatype MxLookup = MxResolved "MxRecord list" | MxRejected string | MxPending

datatype TxtLookup = TxtResolved "string list list" | TxtRejected string | TxtPending

record NameServers =
  resolveMx :: "string \<Rightarrow> int \<Rightarrow> MxLookup"
  resolveTxt :: "string \<Rightarrow> TxtLookup"
  connects :: "string \<Rightarrow> bool"

text \<open>
  \<open>resolveMxAsync = promisify(dns.resolveMx)\<close> and
  \<open>resolveTxtAsync = promisify(dns.resolveTxt)\<close>. \<open>promisify\<close> calls the function it
  wraps with one more argument, a callback, and settles its own promise when the callback
  is called. The functions of the promise API take no callback: they return a promise,
  which the wrapper drops. So the promise of the wrapper stays pending however the
  lookup ends. A rejection of the dropped promise is handled by nobody; what the runtime
  does with it is left out.
\<close>

definition resolveMxAsync :: "NameServers \<Rightarrow> string \<Rightarrow> int \<Rightarrow> MxLookup" where
  "resolveMxAsync ns d attempt =
     (case resolveMx ns d attempt of
        MxResolved records \<Rightarrow> MxPending
      | MxRejected msg \<Rightarrow> MxPending
      | MxPending \<Rightarrow> MxPending)"

definition resolveTxtAsync :: "NameServers \<Rightarrow> string \<Rightarrow> TxtLookup" where
  "resolveTxtAsync ns name =
     (case resolveTxt ns name of
        TxtResolved txtRecords \<Rightarrow> TxtPending
      | TxtRejected msg \<Rightarrow> TxtPending
      | TxtPending \<Rightarrow> TxtPending)"

text \<open>
  \<open>Promise.race([resolveMxAsync(domain), timeout])\<close>: \<open>Inl\<close> is the message of the
  rejection. The timer of \<open>config.timeout\<close> rejects with \<open>DNS timeout\<close> when the other
  promise is still pending.
\<close>

definition raceMx :: "NameServers \<Rightarrow> string \<Rightarrow> int \<Rightarrow> string + MxRecord list" where
  "raceMx ns d attempt =
     (case resolveMxAsync ns d attempt of
        MxResolved records \<Rightarrow> Inr records
      | MxRejected msg \<Rightarrow> Inl msg
      | MxPending \<Rightarrow> Inl ''DNS timeout'')"

text \<open>What the retry loop does, in order: a query, or a pause of so many milliseconds.\<close>

datatype Action = Resolve int | Wait int

text \<open>
  The loop of \<open>resolveMxWithRetry\<close>, from the current value of \<open>attempt\<close>. The result
  is the returned records or the message of the error thrown, with the actions taken.
\<close>

function retryLoop ::
  "DnsResolverConfig \<Rightarrow> NameServers \<Rightarrow> string \<Rightarrow> int \<Rightarrow> string option \<Rightarrow> Action list
     \<Rightarrow> (string + MxRecord list) \<times> Action list" where
  "retryLoop config ns d attempt lastError trace =
     (if attempt \<le> retries config then
        (case raceMx ns d attempt of
           Inr records \<Rightarrow> (Inr records, trace @ [Resolve attempt])
         | Inl err \<Rightarrow>
             if attempt < retries config
             then retryLoop config ns d (attempt + 1) (Some err)
                    (trace @ [Resolve attempt, Wait (min (1000 * 2 ^ nat (attempt - 1)) 5000)])
             else retryLoop config ns d (attempt + 1) (Some err) (trace @ [Resolve attempt]))
      else (Inl (case lastError of None \<Rightarrow> ''MX resolution failed'' | Some err \<Rightarrow> err), trace))"
  by pat_completeness auto
termination
  by (relation "measure (\<lambda>(config, ns, d, attempt, lastError, trace).
                  nat (retries config + 1 - attempt))") auto

declare retryLoop.simps [simp del]

text \<open>
  \<open>resolveMxWithRetry\<close> hands the loop to \<open>executeWithConcurrencyControl\<close>, seen here
  from the call alone. With a free slot the loop runs in this call. Otherwise the loop is
  parked on \<open>requestQueue\<close> and the call yields nothing by itself (\<open>None\<close>): whether its
  promise is ever settled is up to the gate, whose model follows, and
  \<open>resolveMxSettled\<close> puts the two together.
\<close>

definition resolveMxWithRetry ::
  "DnsResolverConfig \<Rightarrow> int \<Rightarrow> NameServers \<Rightarrow> string
     \<Rightarrow> ((string + MxRecord list) \<times> Action list) option" where
  "resolveMxWithRetry config activeRequests ns d =
     (if activeRequests \<ge> concurrency config then None
      else Some (retryLoop config ns d 1 None []))"

text \<open>
  The body shared by \<open>checkSpfRecord\<close> and \<open>checkDmarcRecord\<close>:
  \<open>await resolveTxtAsync(name)\<close> in a \<open>try\<close> whose \<open>catch\<close> returns false. No timer
  races this promise, so the function does not return (\<open>None\<close>) while it is pending.
\<close>

definition hasTxtPrefix :: "NameServers \<Rightarrow> string \<Rightarrow> string \<Rightarrow> bool option" where
  "hasTxtPrefix ns name pre =
     (case resolveTxtAsync ns name of
        TxtResolved txtRecords \<Rightarrow>
          Some (list_ex (\<lambda>records. list_ex (\<lambda>record. startsWith (toLowerCase record) pre) records)
                  txtRecords)
      | TxtRejected err \<Rightarrow> Some False
      | TxtPending \<Rightarrow> None)"

definition checkSpfRecord :: "NameServers \<Rightarrow> string \<Rightarrow> bool option" where
  "checkSpfRecord ns d = hasTxtPrefix ns d ''v=spf1''"

definition checkDmarcRecord :: "NameServers \<Rightarrow> string \<Rightarrow> bool option" where
  "checkDmarcRecord ns d = hasTxtPrefix ns (''_dmarc.'' @ d) ''v=dmarc1''"

definition validateMxConnectivity :: "NameServers \<Rightarrow> MxRecord list \<Rightarrow> bool" where
  "validateMxConnectivity ns records =
     (case records of
        [] \<Rightarrow> False
      | primaryMx # rest \<Rightarrow> connects ns (exchange primaryMx))"

definition emptyDnsResult :: "string \<Rightarrow> DnsValidationResult" where
  "emptyDnsResult d =
     \<lparr>domain = d, hasMx = False, mxRecords = [], hasSpf = False, hasDmarc = False,
      isConnectable = False, validationTime = 0, errors = [], warnings = []\<rparr>"

definition mxStage ::
  "DnsResolverConfig \<Rightarrow> NameServers \<Rightarrow> MxRecord list \<Rightarrow> DnsValidationResult
     \<Rightarrow> DnsValidationResult" where
  "mxStage config ns records result =
     (if records \<noteq> [] then
        (let r = result\<lparr>hasMx := True,
                         mxRecords := sort_key priority
                           (map (\<lambda>record. \<lparr>exchange = exchange record,
                                           priority = priority record\<rparr>) records)\<rparr>
         in if DnsResolverConfig.validateMxConnectivity config
            then r\<lparr>isConnectable := validateMxConnectivity ns (mxRecords r)\<rparr>
            else r)
      else result\<lparr>warnings := warnings result @ [''No MX records found'']\<rparr>)"

text \<open>The SPF and the DMARC stage; \<open>None\<close> when the awaited check does not return.\<close>

definition spfStage ::
  "DnsResolverConfig \<Rightarrow> NameServers \<Rightarrow> string \<Rightarrow> DnsValidationResult
     \<Rightarrow> DnsValidationResult option" where
  "spfStage config ns d result =
     (if DnsResolverConfig.checkSpfRecord config then
        (case checkSpfRecord ns d of
           None \<Rightarrow> None
         | Some found \<Rightarrow>
             (let r = result\<lparr>hasSpf := found\<rparr>
              in if \<not> hasSpf r then Some (r\<lparr>warnings := warnings r @ [''No SPF record found'']\<rparr>)
                 else Some r))
      else Some result)"

definition dmarcStage ::
  "DnsResolverConfig \<Rightarrow> NameServers \<Rightarrow> string \<Rightarrow> DnsValidationResult
     \<Rightarrow> DnsValidationResult option" where
  "dmarcStage config ns d result =
     (if DnsResolverConfig.checkDmarcRecord config then
        (case checkDmarcRecord ns d of
           None \<Rightarrow> None
         | Some found \<Rightarrow>
             (let r = result\<lparr>hasDmarc := found\<rparr>
              in if \<not> hasDmarc r
                 then Some (r\<lparr>warnings := warnings r @ [''No DMARC record found'']\<rparr>)
                 else Some r))
      else Some result)"

text \<open>
  \<open>validateDomain(domain)\<close>: the three stages of the \<open>try\<close> block, left at the first
  throw, and the \<open>catch\<close> that turns the throw into an entry of \<open>errors\<close>. \<open>None\<close>
  is a call that has not returned: its loop is parked on the queue, where it stays unless
  the gate runs it later, or a stage does not return.
\<close>

definition validateDomainRun ::
  "DnsResolverConfig \<Rightarrow> int \<Rightarrow> NameServers \<Rightarrow> int \<Rightarrow> int \<Rightarrow> string
     \<Rightarrow> (DnsValidationResult \<times> Action list) option" where
  "validateDomainRun config activeRequests ns startTime endTime d =
     (case resolveMxWithRetry config activeRequests ns d of
        None \<Rightarrow> None
      | Some (Inl errorMsg, trace) \<Rightarrow>
          Some ((emptyDnsResult d)
                  \<lparr>errors := [''DNS resolution failed: '' @ errorMsg],
                   validationTime := endTime - startTime\<rparr>, trace)
      | Some (Inr records, trace) \<Rightarrow>
          (case spfStage config ns d (mxStage config ns records (emptyDnsResult d)) of
             None \<Rightarrow> None
           | Some r1 \<Rightarrow>
               (case dmarcStage config ns d r1 of
                  None \<Rightarrow> None
                | Some r2 \<Rightarrow> Some (r2\<lparr>validationTime := endTime - startTime\<rparr>, trace))))"

definition validateDomain ::
  "DnsResolverConfig \<Rightarrow> int \<Rightarrow> NameServers \<Rightarrow> int \<Rightarrow> int \<Rightarrow> string
     \<Rightarrow> DnsValidationResult option" where
  "validateDomain config activeRequests ns startTime endTime d =
     map_option fst (validateDomainRun config activeRequests ns startTime endTime d)"

text \<open>
  \<open>checkMxRecord(domain)\<close> of the resolver, its cache apart: what it returns once the
  loop of \<open>resolveMxWithRetry\<close> has run to its end.
\<close>

definition checkMxRecordSimple :: "DnsResolverConfig \<Rightarrow> NameServers \<Rightarrow> string \<Rightarrow> bool" where
  "checkMxRecordSimple config ns d =
     (case fst (retryLoop config ns d 1 None []) of
        Inl err \<Rightarrow> False
      | Inr records \<Rightarrow> records \<noteq> [])"

subsection \<open>The cache of the resolver\<close>

text \<open>
  \<open>dnsCache\<close> is a \<open>Map\<close>, kept here as the list of its entries in insertion order:
  \<open>set\<close> replaces the value of a present key in place and appends a new key, and
  \<open>keys().next().value\<close> is the first key.
\<close>

record 'v DnsCache =
  result :: 'v
  timestamp :: int
  ttl :: int

fun mapSet :: "'k \<Rightarrow> 'e \<Rightarrow> ('k \<times> 'e) list \<Rightarrow> ('k \<times> 'e) list" where
  "mapSet k e [] = [(k, e)]"
| "mapSet k e ((k', e') # m) = (if k' = k then (k, e) # m else (k', e') # mapSet k e m)"

definition mapDelete :: "'k \<Rightarrow> ('k \<times> 'e) list \<Rightarrow> ('k \<times> 'e) list" where
  "mapDelete k m = filter (\<lambda>(k', e). k' \<noteq> k) m"

definition mapGet :: "('k \<times> 'e) list \<Rightarrow> 'k \<Rightarrow> 'e option" where
  "mapGet m k = map_of m k"

text \<open>\<open>getCachedResult(key)\<close> read at time \<open>now\<close>: the value or \<open>undefined\<close>, and the map after.\<close>

definition getCachedResult ::
  "(string \<times> 'v DnsCache) list \<Rightarrow> string \<Rightarrow> int \<Rightarrow> 'v option \<times> (string \<times> 'v DnsCache) list" where
  "getCachedResult dnsCache key now =
     (case mapGet dnsCache key of
        None \<Rightarrow> (None, dnsCache)
      | Some cached \<Rightarrow>
          if now - timestamp cached < ttl cached then (Some (result cached), dnsCache)
          else (None, mapDelete key dnsCache))"

text \<open>\<open>ttl || this.config.cacheTtl\<close>: an omitted \<open>ttl\<close> and a \<open>ttl\<close> of 0 give the configured one.\<close>

definition storedTtl :: "DnsResolverConfig \<Rightarrow> int option \<Rightarrow> int" where
  "storedTtl config ttlArg =
     (case ttlArg of
        None \<Rightarrow> cacheTtl config
      | Some t \<Rightarrow> if t = 0 then cacheTtl config else t)"

definition setCachedResult ::
  "DnsResolverConfig \<Rightarrow> (string \<times> 'v DnsCache) list \<Rightarrow> string \<Rightarrow> 'v \<Rightarrow> int option \<Rightarrow> int
     \<Rightarrow> (string \<times> 'v DnsCache) list" where
  "setCachedResult config dnsCache key res ttlArg now =
     (let evicted =
            (if int (length dnsCache) \<ge> cacheSize config then
               (case dnsCache of
                  [] \<Rightarrow> dnsCache
                | (oldestKey, oldest) # rest \<Rightarrow>
                    if oldestKey \<noteq> [] then mapDelete oldestKey dnsCache else dnsCache)
             else dnsCache)
      in mapSet key \<lparr>result = res, timestamp = now, ttl = storedTtl config ttlArg\<rparr> evicted)"

subsection \<open>The concurrency gate of the resolver\<close>

text \<open>
  \<open>executeWithConcurrencyControl\<close> on the single thread of the event loop. The state holds
  the counter and the queue of the resolver, and for the operations handed to it: those
  started by their own call and still running, those waiting in a \<open>setImmediate\<close>
  callback, those started from such a callback and still running, and those whose
  promise is settled. An event is a call with a new operation, the end of a running
  operation (with a value or an error, the gate treats both alike), or the turn of the
  first \<open>setImmediate\<close> callback.
\<close>

record 'a Gate =
  activeRequests :: int
  requestQueue :: "'a list"
  running :: "'a list"
  immediates :: "'a list"
  resumed :: "'a list"
  settled :: "'a list"

datatype 'a GateEvent = Call 'a | Settle 'a | Immediate

definition idle :: "'a Gate" where
  "idle = \<lparr>activeRequests = 0, requestQueue = [], running = [], immediates = [],
           resumed = [], settled = []\<rparr>"

fun gateStep :: "int \<Rightarrow> 'a Gate \<Rightarrow> 'a GateEvent \<Rightarrow> 'a Gate" where
  "gateStep maxConcurrent g (Call operation) =
     (if activeRequests g \<ge> maxConcurrent
      then g\<lparr>requestQueue := requestQueue g @ [operation]\<rparr>
      else g\<lparr>activeRequests := activeRequests g + 1, running := running g @ [operation]\<rparr>)"
| "gateStep maxConcurrent g (Settle operation) =
     (if operation \<in> set (running g) then
        (let g1 = g\<lparr>running := remove1 operation (running g),
                      activeRequests := activeRequests g - 1,
                      settled := settled g @ [operation]\<rparr>
         in case requestQueue g1 of
              [] \<Rightarrow> g1
            | nextRequest # rest \<Rightarrow>
                g1\<lparr>requestQueue := rest, immediates := immediates g1 @ [nextRequest]\<rparr>)
      else if operation \<in> set (resumed g) then
        g\<lparr>resumed := remove1 operation (resumed g), settled := settled g @ [operation]\<rparr>
      else g)"
| "gateStep maxConcurrent g Immediate =
     (case immediates g of
        [] \<Rightarrow> g
      | nextRequest # rest \<Rightarrow> g\<lparr>immediates := rest, resumed := resumed g @ [nextRequest]\<rparr>)"

definition gateRun :: "int \<Rightarrow> 'a Gate \<Rightarrow> 'a GateEvent list \<Rightarrow> 'a Gate" where
  "gateRun maxConcurrent g evs = foldl (gateStep maxConcurrent) g evs"

definition executing :: "'a Gate \<Rightarrow> nat" where
  "executing g = length (running g) + length (resumed g)"

definition isCall :: "'a GateEvent \<Rightarrow> bool" where
  "isCall ev = (case ev of Call operation \<Rightarrow> True | Settle operation \<Rightarrow> False | Immediate \<Rightarrow> False)"

text \<open>
  The promise of one call of \<open>resolveMxWithRetry\<close>, seen over the history \<open>evs\<close> of the
  gate from its idle state: it is settled with what the loop gives once the gate has run
  the loop to its end, whether the call was admitted at once or was parked and taken from
  the queue later, and it is pending (\<open>None\<close>) otherwise.
\<close>

definition settles :: "int \<Rightarrow> 'a GateEvent list \<Rightarrow> 'a \<Rightarrow> bool" where
  "settles maxConcurrent evs operation =
     (operation \<in> set (settled (gateRun maxConcurrent idle evs)))"

definition resolveMxSettled ::
  "DnsResolverConfig \<Rightarrow> 'a GateEvent list \<Rightarrow> 'a \<Rightarrow> NameServers \<Rightarrow> string
     \<Rightarrow> (string + MxRecord list) option" where
  "resolveMxSettled config evs operation ns d =
     (if settles (concurrency config) evs operation
      then Some (fst (retryLoop config ns d 1 None []))
      else None)"

text \<open>
  The actions of a run of the retry loop that makes \<open>m\<close> attempts: after each attempt but
  the last, the pause \<open>min(1000 * 2^(attempt - 1), 5000)\<close> and then the next attempt.
\<close>

definition backoffSchedule :: "int \<Rightarrow> Action list" where
  "backoffSchedule m =
     concat (map (\<lambda>attempt. if attempt < m
                              then [Resolve attempt, Wait (min (1000 * 2 ^ nat (attempt - 1)) 5000)]
                              else [Resolve attempt]) [1..m])"

definition isResolve :: "Action \<Rightarrow> bool" where
  "isResolve a = (case a of Resolve attempt \<Rightarrow> True | Wait ms \<Rightarrow> False)"

section \<open>Format validation (email-validator.ts)\<close>

definition isAlnum :: "char \<Rightarrow> bool" where
  "isAlnum c =
     (let n = (of_char c :: nat)
      in (48 \<le> n \<and> n \<le> 57) \<or> (65 \<le> n \<and> n \<le> 90) \<or> (97 \<le> n \<and> n \<le> 122))"

text \<open>The character class \<open>[a-zA-Z0-9.!#$%&'*+/=?^_`{|}~-]\<close>.\<close>

definition isLocalChar :: "char \<Rightarrow> bool" where
  "isLocalChar c =
     (isAlnum c \<or> c \<in> set ''.!#$%&*+/=?^_{|}~-'' \<or> c = CHR 0x27 \<or> c = CHR 0x60)"

text \<open>\<open>[a-zA-Z0-9](?:[a-zA-Z0-9-]{0,61}[a-zA-Z0-9])?\<close>, matched against a whole label.\<close>

definition isLabel :: "string \<Rightarrow> bool" where
  "isLabel l =
     (l \<noteq> [] \<and> length l \<le> 63 \<and> isAlnum (hd l) \<and> isAlnum (last l) \<and>
      list_all (\<lambda>c. isAlnum c \<or> c = CHR ''-'') l)"

text \<open>
  \<open>EMAIL_REGEX.test(email)\<close>: one or more local characters, \<open>@\<close>, and labels separated
  by dots. No class of the expression holds \<open>@\<close>, so the address has exactly one.
\<close>

definition EMAIL_REGEX :: "string \<Rightarrow> bool" where
  "EMAIL_REGEX em =
     (case split CHR ''@'' em of
        [l, d] \<Rightarrow> l \<noteq> [] \<and> list_all isLocalChar l \<and> list_all isLabel (split CHR ''.'' d)
      | _ \<Rightarrow> False)"

text \<open>
  \<open>STRICT_EMAIL_REGEX.test(email)\<close>: the local part is \<open>[a-zA-Z0-9](?:[a-zA-Z0-9._-]*[a-zA-Z0-9])?\<close>
  and the domain has at least two labels.
\<close>

definition STRICT_EMAIL_REGEX :: "string \<Rightarrow> bool" where
  "STRICT_EMAIL_REGEX em =
     (case split CHR ''@'' em of
        [l, d] \<Rightarrow>
          l \<noteq> [] \<and> isAlnum (hd l) \<and> isAlnum (last l) \<and>
          list_all (\<lambda>c. isAlnum c \<or> c \<in> set ''._-'') l \<and>
          list_all isLabel (split CHR ''.'' d) \<and> 2 \<le> length (split CHR ''.'' d)
      | _ \<Rightarrow> False)"

text \<open>\<open>s.indexOf(c, from)\<close>: the first position at or after \<open>from\<close>, or \<open>-1\<close>.\<close>

definition indexOf :: "string \<Rightarrow> char \<Rightarrow> nat \<Rightarrow> int" where
  "indexOf s c from =
     (case List.find (\<lambda>i. s ! i = c) [from..<length s] of
        None \<Rightarrow> - 1
      | Some i \<Rightarrow> int i)"

text \<open>
  \<open>validateEmailFormat(email, result)\<close>: \<open>None\<close> when it returns true, and otherwise the
  message it pushes onto \<open>result.errors\<close> before it returns false.
\<close>

definition validateEmailFormat :: "bool \<Rightarrow> string \<Rightarrow> string option" where
  "validateEmailFormat strict em =
     (if length em > 254 then Some ''Email address too long (max 254 characters)''
      else
        (let atIndex = indexOf em CHR ''@'' 0
         in if atIndex = - 1 \<or> atIndex = 0 \<or> atIndex = int (length em) - 1
            then Some ''Invalid email format - missing or misplaced @ symbol''
            else if indexOf em CHR ''@'' (nat atIndex + 1) \<noteq> - 1
            then Some ''Invalid email format - multiple @ symbols''
            else
              (let localPart = take (nat atIndex) em;
                   domainPart = drop (nat atIndex + 1) em
               in if length localPart > 64 then Some ''Local part too long (max 64 characters)''
                  else if length domainPart > 253 then Some ''Domain too long (max 253 characters)''
                  else if \<not> (if strict then STRICT_EMAIL_REGEX em else EMAIL_REGEX em)
                  then Some ''Invalid email format''
                  else None)))"

text \<open>
  \<open>parseEmail(email)\<close>: the local part and the lower-cased domain. Without an \<open>@\<close> the
  index is \<open>-1\<close>, \<open>slice(0, -1)\<close> drops the last character and \<open>slice(0)\<close> is the whole
  string.
\<close>

definition parseEmail :: "string \<Rightarrow> string \<times> string" where
  "parseEmail em =
     (let atIndex = indexOf em CHR ''@'' 0
      in if atIndex = - 1 then (butlast em, toLowerCase em)
         else (take (nat atIndex) em, toLowerCase (drop (nat atIndex + 1) em)))"


section \<open>The checker (disposable-email-checker.ts)\<close>

datatype MatchType = MatchExact | MatchSubdomain | MatchPattern | MatchNone

text \<open>The objects stored in \<open>result.dnsValidation\<close> and \<open>result.smtpValidation\<close>.\<close>

record DnsSummary =
  hasMx :: bool
  mxRecords :: "MxRecord list"
  hasSpf :: bool
  hasDmarc :: bool
  isConnectable :: bool
  dnsValidationTime :: int

record SmtpSummary =
  isValid :: bool
  isDeliverable :: bool
  responseCode :: "number option"
  responseMessage :: "string option"
  smtpValidationTime :: int
  serverTested :: "string option"

record EmailValidationResult =
  email :: string
  isValid :: bool
  isDisposable :: bool
  isAllowed :: bool
  isBlacklisted :: bool
  domain :: string
  localPart :: string
  matchType :: MatchType
  confidence :: int
  source :: "string option"
  validationTime :: int
  errors :: "string list"
  warnings :: "string list"
  dnsValidation :: "DnsSummary option"
  smtpValidation :: "SmtpSummary option"

text \<open>
  \<open>getPooledResult()\<close>: the last object of \<open>resultPool\<close> with the fields the function
  resets (\<open>dnsValidation\<close> and \<open>smtpValidation\<close> are not among them), or a new object.
  Nothing calls \<open>returnToPool\<close>, so the pool is empty whenever the checker runs.
\<close>

definition newResult :: EmailValidationResult where
  "newResult =
     \<lparr>email = [], isValid = False, isDisposable = False, isAllowed = False,
      isBlacklisted = False, domain = [], localPart = [], matchType = MatchNone,
      confidence = 0, source = None, validationTime = 0, errors = [], warnings = [],
      dnsValidation = None, smtpValidation = None\<rparr>"

definition getPooledResult :: "EmailValidationResult list \<Rightarrow> EmailValidationResult" where
  "getPooledResult resultPool =
     (if resultPool \<noteq> []
      then (last resultPool)
             \<lparr>email := [], isValid := False, isDisposable := False, isAllowed := False,
              isBlacklisted := False, domain := [], localPart := [], matchType := MatchNone,
              confidence := 0, validationTime := 0, errors := [], warnings := [],
              source := None\<rparr>
      else newResult)"

record EmailCheckerConfig =
  strictValidation :: bool
  checkMxRecord :: bool
  checkSmtpDeliverability :: bool
  enablePatternMatching :: bool
  enableCaching :: bool
  customPatterns :: "string list"
  dnsValidation :: DnsResolverConfig

text \<open>What \<open>checkBlacklist\<close> and \<open>checkDisposableDomain\<close> return.\<close>

record MatchResult =
  isMatch :: bool
  matchType :: MatchType
  confidence :: int
  source :: "string option"

text \<open>
  The objects the checker calls, each method by what it returns for its arguments:
  \<open>DomainChecker\<close> and \<open>CacheManager\<close> by their interface, and the methods of
  \<open>EmailValidator\<close> for the pattern analysis and for the DNS and SMTP clients above, run
  against their network, with \<open>Inl\<close> for a call that throws.
\<close>

record Collaborators =
  checkAllowlist :: "string \<Rightarrow> bool"
  checkBlacklist :: "string \<Rightarrow> MatchResult"
  checkDisposableDomain :: "string \<Rightarrow> MatchResult"
  analyzePatterns :: "string \<Rightarrow> string \<Rightarrow> string \<Rightarrow> string list \<Rightarrow> int \<times> string list"
  validateMxRecord :: "string \<Rightarrow> string + DnsValidationResult"
  checkMxRecord :: "string \<Rightarrow> string + bool"
  validateSmtpDeliverability :: "string \<Rightarrow> MxRecord list option \<Rightarrow> string + SmtpValidationResult"
  cacheGet :: "string \<Rightarrow> EmailValidationResult option"

text \<open>The calls made to the collaborators, in order.\<close>

datatype Stage =
    AllowlistCheck string
  | BlacklistCheck string
  | DisposableCheck string
  | PatternAnalysis string
  | DnsValidation string
  | MxCheck string
  | SmtpValidation string "MxRecord list option"

text \<open>
  \<open>EMAIL_PATTERN.test(s)\<close>: one or more characters that are neither white space nor
  \<open>@\<close>, then \<open>@\<close>, then such characters again with a dot that is neither the first
  nor the last of them.
\<close>

definition EMAIL_PATTERN :: "string \<Rightarrow> bool" where
  "EMAIL_PATTERN s =
     (case split CHR ''@'' s of
        [l, d] \<Rightarrow>
          l \<noteq> [] \<and> \<not> list_ex isWhitespace l \<and> \<not> list_ex isWhitespace d \<and>
          CHR ''.'' \<in> set (butlast (tl d))
      | _ \<Rightarrow> False)"

text \<open>Steps 4 to 8 of \<open>performEmailCheck\<close>, each with the calls it makes.\<close>

definition blacklistStep ::
  "Collaborators \<Rightarrow> string \<Rightarrow> EmailValidationResult \<Rightarrow> EmailValidationResult" where
  "blacklistStep co dm res =
     (let blacklistResult = checkBlacklist co dm
      in if isMatch blacklistResult
         then res\<lparr>isBlacklisted := True,
                     EmailValidationResult.matchType := MatchResult.matchType blacklistResult,
                     EmailValidationResult.confidence := MatchResult.confidence blacklistResult\<rparr>
         else res)"

definition disposableStep ::
  "Collaborators \<Rightarrow> string \<Rightarrow> EmailValidationResult \<Rightarrow> EmailValidationResult" where
  "disposableStep co dm res =
     (let disposableResult = checkDisposableDomain co dm
      in if isMatch disposableResult
         then res\<lparr>isDisposable := True,
                     EmailValidationResult.matchType := MatchResult.matchType disposableResult,
                     EmailValidationResult.confidence :=
                       max (EmailValidationResult.confidence res)
                           (MatchResult.confidence disposableResult),
                     EmailValidationResult.source := MatchResult.source disposableResult\<rparr>
         else res)"

definition patternStep ::
  "EmailCheckerConfig \<Rightarrow> Collaborators \<Rightarrow> string \<Rightarrow> string \<Rightarrow> string
     \<Rightarrow> EmailValidationResult \<times> Stage list \<Rightarrow> EmailValidationResult \<times> Stage list" where
  "patternStep config co em lp dm state =
     (let (res, calls) = state
      in if enablePatternMatching config \<and> length (customPatterns config) > 0 then
           (let (suspiciousScore, patternWarnings) =
                  analyzePatterns co em lp dm (customPatterns config);
                r1 = (if suspiciousScore > 0 then
                        (let r = res\<lparr>warnings := patternWarnings,
                                         EmailValidationResult.confidence :=
                                           max (EmailValidationResult.confidence res)
                                               suspiciousScore\<rparr>
                         in if suspiciousScore \<ge> 80
                            then r\<lparr>isDisposable := True,
                                   EmailValidationResult.matchType := MatchPattern\<rparr>
                            else r)
                      else res)
            in (r1, calls @ [PatternAnalysis em]))
         else (res, calls))"

text \<open>Step 7 also yields the \<open>dnsResult\<close> that step 8 looks at.\<close>

definition dnsStep ::
  "EmailCheckerConfig \<Rightarrow> Collaborators \<Rightarrow> string \<Rightarrow> EmailValidationResult \<times> Stage list
     \<Rightarrow> (EmailValidationResult \<times> Stage list) \<times> DnsValidationResult option" where
  "dnsStep config co dm state =
     (let (res, calls) = state
      in if EmailCheckerConfig.checkMxRecord config then
           (if DnsResolverConfig.validateMxConnectivity (EmailCheckerConfig.dnsValidation config) \<or>
               DnsResolverConfig.checkSpfRecord (EmailCheckerConfig.dnsValidation config) \<or>
               DnsResolverConfig.checkDmarcRecord (EmailCheckerConfig.dnsValidation config)
            then
              (case validateMxRecord co dm of
                 Inl err \<Rightarrow>
                   ((res\<lparr>warnings := warnings res @ [''Failed to check DNS records'']\<rparr>,
                     calls @ [DnsValidation dm]), None)
               | Inr dnsResult \<Rightarrow>
                   (let r1 = res\<lparr>EmailValidationResult.dnsValidation := Some
                               \<lparr>DnsSummary.hasMx = DnsValidationResult.hasMx dnsResult,
                                DnsSummary.mxRecords = DnsValidationResult.mxRecords dnsResult,
                                DnsSummary.hasSpf = DnsValidationResult.hasSpf dnsResult,
                                DnsSummary.hasDmarc = DnsValidationResult.hasDmarc dnsResult,
                                DnsSummary.isConnectable =
                                  DnsValidationResult.isConnectable dnsResult,
                                dnsValidationTime = DnsValidationResult.validationTime dnsResult\<rparr>\<rparr>;
                        r2 = (if \<not> DnsValidationResult.hasMx dnsResult
                              then r1\<lparr>warnings := warnings r1 @ [''No MX record found for domain''],
                                      EmailValidationResult.confidence :=
                                        max (EmailValidationResult.confidence r1) 60\<rparr>
                              else r1);
                        r3 = r2\<lparr>warnings := warnings r2 @ DnsValidationResult.warnings dnsResult\<rparr>;
                        r4 = (if length (DnsValidationResult.errors dnsResult) > 0
                              then r3\<lparr>warnings := warnings r3 @
                                        [''DNS validation encountered errors'']\<rparr>
                              else r3)
                    in ((r4, calls @ [DnsValidation dm]), Some dnsResult)))
            else
              (case Collaborators.checkMxRecord co dm of
                 Inl err \<Rightarrow>
                   ((res\<lparr>warnings := warnings res @ [''Failed to check DNS records'']\<rparr>,
                     calls @ [MxCheck dm]), None)
               | Inr mx \<Rightarrow>
                   ((if \<not> mx
                     then res\<lparr>warnings := warnings res @ [''No MX record found for domain''],
                                 EmailValidationResult.confidence :=
                                   max (EmailValidationResult.confidence res) 60\<rparr>
                     else res, calls @ [MxCheck dm]), None)))
         else ((res, calls), None))"

definition smtpStep ::
  "EmailCheckerConfig \<Rightarrow> Collaborators \<Rightarrow> string
     \<Rightarrow> (EmailValidationResult \<times> Stage list) \<times> DnsValidationResult option
     \<Rightarrow> EmailValidationResult \<times> Stage list" where
  "smtpStep config co em state =
     (let ((res, calls), dnsResult) = state
      in if checkSmtpDeliverability config then
           (let mxs = (case dnsResult of
                         None \<Rightarrow> None
                       | Some dr \<Rightarrow>
                           if DnsValidationResult.hasMx dr \<and>
                              length (DnsValidationResult.mxRecords dr) > 0
                           then Some (DnsValidationResult.mxRecords dr) else None)
            in case validateSmtpDeliverability co em mxs of
                 Inl err \<Rightarrow>
                   (res\<lparr>warnings := warnings res @ [''Failed to perform SMTP validation'']\<rparr>,
                    calls @ [SmtpValidation em mxs])
               | Inr smtpResult \<Rightarrow>
                   (let r1 = res\<lparr>smtpValidation := Some
                               \<lparr>SmtpSummary.isValid = SmtpValidationResult.isValid smtpResult,
                                SmtpSummary.isDeliverable = isMailboxValid smtpResult,
                                SmtpSummary.responseCode =
                                  SmtpValidationResult.responseCode smtpResult,
                                SmtpSummary.responseMessage =
                                  SmtpValidationResult.responseMessage smtpResult,
                                smtpValidationTime = SmtpValidationResult.validationTime smtpResult,
                                serverTested = SmtpValidationResult.mxRecord smtpResult\<rparr>\<rparr>;
                        r2 = (if \<not> isMailboxValid smtpResult
                              then r1\<lparr>warnings := warnings r1 @
                                        [''Email address does not appear to be deliverable''],
                                      EmailValidationResult.confidence :=
                                        max (EmailValidationResult.confidence r1) 70\<rparr>
                              else r1);
                        r3 = r2\<lparr>warnings := warnings r2 @ SmtpValidationResult.warnings smtpResult\<rparr>;
                        r4 = (if length (SmtpValidationResult.errors smtpResult) > 0
                              then r3\<lparr>warnings := warnings r3 @
                                        [''SMTP validation encountered errors'']\<rparr>
                              else r3)
                    in (r4, calls @ [SmtpValidation em mxs])))
         else (res, calls))"

text \<open>
  \<open>performEmailCheck(email, startTime)\<close>, with the pool and the reading of the clock at
  the return: the res and the calls made.
\<close>

definition performEmailCheck ::
  "EmailCheckerConfig \<Rightarrow> Collaborators \<Rightarrow> EmailValidationResult list \<Rightarrow> int \<Rightarrow> int \<Rightarrow> string
     \<Rightarrow> EmailValidationResult \<times> Stage list" where
  "performEmailCheck config co resultPool startTime endTime em =
     (let res = (getPooledResult resultPool)\<lparr>email := em\<rparr>
      in case validateEmailFormat (strictValidation config) em of
           Some err \<Rightarrow>
             (res\<lparr>errors := errors res @ [err], validationTime := endTime - startTime\<rparr>,
              [])
         | None \<Rightarrow>
             (let (lp, dm) = parseEmail em;
                  r1 = res\<lparr>localPart := lp, domain := dm, isValid := True\<rparr>
              in if checkAllowlist co dm
                 then (r1\<lparr>isAllowed := True, EmailValidationResult.matchType := MatchExact,
                           EmailValidationResult.confidence := 100,
                           validationTime := endTime - startTime\<rparr>,
                       [AllowlistCheck dm])
                 else
                   (let r2 = disposableStep co dm (blacklistStep co dm r1);
                        s3 = patternStep config co em lp dm
                               (r2, [AllowlistCheck dm, BlacklistCheck dm, DisposableCheck dm]);
                        (r5, calls) = smtpStep config co em (dnsStep config co dm s3)
                    in (r5\<lparr>validationTime := endTime - startTime\<rparr>, calls))))"

text \<open>
  \<open>checkEmail(email)\<close> of an initialised checker. The writes to the cache and to the
  metrics are left out, and the collaborators are taken not to throw.
\<close>

definition checkEmail ::
  "EmailCheckerConfig \<Rightarrow> Collaborators \<Rightarrow> EmailValidationResult list \<Rightarrow> int \<Rightarrow> int \<Rightarrow> string
     \<Rightarrow> EmailValidationResult \<times> Stage list" where
  "checkEmail config co resultPool startTime endTime input =
     (let normalizedEmail = trim (toLowerCase input)
      in if \<not> EMAIL_PATTERN normalizedEmail
         then ((getPooledResult resultPool)
                 \<lparr>email := normalizedEmail, validationTime := endTime - startTime,
                  errors := errors (getPooledResult resultPool) @ [''Invalid email format'']\<rparr>,
               [])
         else
           (case (if enableCaching config then cacheGet co normalizedEmail else None) of
              Some cached \<Rightarrow> (cached\<lparr>validationTime := endTime - startTime\<rparr>, [])
            | None \<Rightarrow> performEmailCheck config co resultPool startTime endTime normalizedEmail))"

subsection \<open>Batches\<close>

text \<open>\<open>[...new Set(xs)]\<close>: the elements in the order of their first occurrence.\<close>

definition uniqueOf :: "'a list \<Rightarrow> 'a list" where
  "uniqueOf xs = rev (remdups (rev xs))"

text \<open>The slices \<open>xs.slice(i, i + n)\<close> for \<open>i = 0, n, 2n, ...\<close> below the length.\<close>

function chunksOf :: "nat \<Rightarrow> 'a list \<Rightarrow> 'a list list" where
  "chunksOf n xs = (if n = 0 \<or> xs = [] then [] else take n xs # chunksOf n (drop n xs))"
  by pat_completeness auto
termination
  by (relation "measure (\<lambda>(n, xs). length xs)") auto

declare chunksOf.simps [simp del]

text \<open>
  \<open>checkEmailsBatch(emails)\<close>. \<open>cached e\<close> is what the cache returns for \<open>e\<close>;
  \<open>check e\<close> is what the one call \<open>this.checkEmail(e)\<close> of the batch is resolved with, or
  \<open>None\<close> when it never settles; \<open>completed\<close> lists the chunks in the order in which
  their \<open>then\<close> callbacks run. The result is \<open>None\<close> when \<open>Promise.all\<close> never settles,
  and a position of the returned list is \<open>None\<close> when \<open>resultMap.get\<close> gives \<open>undefined\<close>.
\<close>

definition normalizedOf :: "string list \<Rightarrow> string list" where
  "normalizedOf emails = map (\<lambda>e. trim (toLowerCase e)) emails"

definition cachedOf :: "bool \<Rightarrow> (string \<Rightarrow> 'r option) \<Rightarrow> string \<Rightarrow> 'r option" where
  "cachedOf caching cached e = (if caching then cached e else None)"

definition uncachedOf :: "bool \<Rightarrow> (string \<Rightarrow> 'r option) \<Rightarrow> string list \<Rightarrow> string list" where
  "uncachedOf caching cached emails =
     filter (\<lambda>e. cachedOf caching cached e = None) (uniqueOf (normalizedOf emails))"

definition chunkSizeOf :: "string list \<Rightarrow> nat" where
  "chunkSizeOf uncachedEmails = min 50 (max 10 (length uncachedEmails div 4))"

definition setAll ::
  "(string \<Rightarrow> 'r option) \<Rightarrow> string list \<Rightarrow> (string \<rightharpoonup> 'r) \<Rightarrow> (string \<rightharpoonup> 'r)" where
  "setAll check chunk resultMap = fold (\<lambda>e m. m(e := check e)) chunk resultMap"

definition checkEmailsBatch ::
  "bool \<Rightarrow> (string \<Rightarrow> 'r option) \<Rightarrow> (string \<Rightarrow> 'r option) \<Rightarrow> string list list \<Rightarrow> string list
     \<Rightarrow> 'r option list option" where
  "checkEmailsBatch caching cached check completed emails =
     (let normalizedEmails = normalizedOf emails;
          uniqueEmails = uniqueOf normalizedEmails;
          resultMap0 = (\<lambda>e. if e \<in> set uniqueEmails then cachedOf caching cached e else None);
          uncachedEmails = uncachedOf caching cached emails;
          resultMap = fold (setAll check) completed resultMap0
      in if list_ex (\<lambda>e. check e = None) uncachedEmails then None
         else Some (map resultMap normalizedEmails))"

text \<open>The result each address is due: the cached one, or else the one of its check.\<close>

definition resultFor :: "bool \<Rightarrow> (string \<Rightarrow> 'r option) \<Rightarrow> (string \<Rightarrow> 'r option) \<Rightarrow> string \<Rightarrow> 'r option" where
  "resultFor caching cached check e =
     (case cachedOf caching cached (trim (toLowerCase e)) of
        Some r \<Rightarrow> Some r
      | None \<Rightarrow> check (trim (toLowerCase e)))"

text \<open>
  \<open>checkEmailsBatch\<close> of a checker whose simple MX check goes to the resolver above.
  \<open>withResolver\<close> is the checker with that resolver behind \<open>checkMxRecord\<close>, and
  \<open>lookupsOf\<close> are the addresses whose check asks it for MX records. The batch starts
  every check before it awaits any, and with \<open>retries\<close> of 1 or more a lookup lasts
  \<open>config.timeout\<close> or longer, so the calls of \<open>resolveMxWithRetry\<close> reach the gate in the
  order of the uncached addresses before any lookup ends; \<open>evs\<close> is what happens at the
  gate afterwards. The check of an address is settled when its lookup is, and at once
  when it makes none.
\<close>

definition withResolver :: "EmailCheckerConfig \<Rightarrow> NameServers \<Rightarrow> Collaborators \<Rightarrow> Collaborators" where
  "withResolver config ns co =
     co\<lparr>Collaborators.checkMxRecord :=
          (\<lambda>d. Inr (checkMxRecordSimple (EmailCheckerConfig.dnsValidation config) ns d))\<rparr>"

definition lookupsOf :: "EmailCheckerConfig \<Rightarrow> Collaborators \<Rightarrow> string list \<Rightarrow> string list" where
  "lookupsOf config co emails =
     filter (\<lambda>e. list_ex (\<lambda>call. case call of MxCheck d \<Rightarrow> True | _ \<Rightarrow> False)
                   (snd (checkEmail config co [] 0 0 e))) emails"

definition checkEmailsBatchRun ::
  "EmailCheckerConfig \<Rightarrow> Collaborators \<Rightarrow> NameServers \<Rightarrow> int \<Rightarrow> int \<Rightarrow> string GateEvent list
     \<Rightarrow> string list list \<Rightarrow> string list \<Rightarrow> EmailValidationResult option list option" where
  "checkEmailsBatchRun config co ns startTime endTime evs completed emails =
     (let uncachedEmails = uncachedOf (enableCaching config) (cacheGet co) emails;
          lookups = lookupsOf config (withResolver config ns co) uncachedEmails;
          history = map Call lookups @ evs;
          check = (\<lambda>e. if e \<in> set lookups \<and>
                            \<not> settles (concurrency (EmailCheckerConfig.dnsValidation config)) history e
                         then None
                         else Some (fst (checkEmail config (withResolver config ns co) []
                                           startTime endTime e)))
      in checkEmailsBatch (enableCaching config) (cacheGet co) check completed emails)"

text \<open>
  The records of the first attempt, among attempts 1 to \<open>retries\<close>, whose query is
  answered, if there is one; and the message of the error the loop throws when there is none.
\<close>

definition firstAnswer :: "DnsResolverConfig \<Rightarrow> NameServers \<Rightarrow> string \<Rightarrow> MxRecord list option" where
  "firstAnswer config ns d =
     (case List.find (\<lambda>a. \<not> isl (raceMx ns d a)) [1..retries config] of
        None \<Rightarrow> None
      | Some a \<Rightarrow> Some (projr (raceMx ns d a)))"

definition thrownMessage :: "DnsResolverConfig \<Rightarrow> NameServers \<Rightarrow> string \<Rightarrow> string" where
  "thrownMessage config ns d =
     (if 1 \<le> retries config then projl (raceMx ns d (retries config))
      else ''MX resolution failed'')"

text \<open>A caller-side view of three calls made to a gate of one slot before any settles.\<close>

definition starved :: "nat Gate \<Rightarrow> bool" where
  "starved g = ((running g = [1] \<and> requestQueue g = [2, 3] \<and> immediates g = [] \<and> resumed g = [] \<and> settled g = [])
       \<or> (running g = [] \<and> requestQueue g = [3] \<and> 3 \<notin> set (immediates g) \<and> 3 \<notin> set (resumed g) \<and> 3 \<notin> set (settled g)))"

text \<open>
  A request that waits in the queue behind at least as many requests as there are
  operations that were started by their own call and still run.
\<close>

definition waitsBehind :: "'a \<Rightarrow> 'a Gate \<Rightarrow> bool" where
  "waitsBehind z g =
     (z \<in> set (requestQueue g) \<and>
      length (running g) \<le> length (takeWhile (\<lambda>x. x \<noteq> z) (requestQueue g)) \<and>
      z \<notin> set (running g) \<and> z \<notin> set (immediates g) \<and> z \<notin> set (resumed g) \<and>
      z \<notin> set (settled g))"

text \<open>The defaults of the constructor, and the name servers of the scenarios below.\<close>

definition resolverDefaults :: DnsResolverConfig where
  "resolverDefaults =
     \<lparr>timeout = 5000, retries = 3, enableCaching = True, cacheSize = 10000, cacheTtl = 300000,
      concurrency = 10, validateMxConnectivity = False, checkSpfRecord = False,
      checkDmarcRecord = False\<rparr>"

definition allChecks :: DnsResolverConfig where
  "allChecks = resolverDefaults\<lparr>DnsResolverConfig.checkSpfRecord := True,
                 DnsResolverConfig.checkDmarcRecord := True\<rparr>"

definition unreachable :: NameServers where
  "unreachable =
     \<lparr>resolveMx = (\<lambda>d attempt. MxPending), resolveTxt = (\<lambda>d. TxtRejected ''queryTxt ETIMEOUT''),
      connects = (\<lambda>host. False)\<rparr>"

text \<open>
  Name servers that answer at once for a domain that exists and has no MX, no SPF and no
  DMARC record: the MX lookup is rejected with \<open>ENODATA\<close>, and the TXT lookups give one
  record that is neither.
\<close>

definition noMxRecords :: NameServers where
  "noMxRecords =
     \<lparr>resolveMx = (\<lambda>d attempt. MxRejected (''queryMx ENODATA '' @ d)),
      resolveTxt = (\<lambda>d. TxtResolved [[''google-site-verification=abc'']]),
      connects = (\<lambda>host. False)\<rparr>"

text \<open>Name servers that answer at once with two MX records, the higher priority last.\<close>

definition healthy :: NameServers where
  "healthy =
     \<lparr>resolveMx = (\<lambda>d attempt. MxResolved
                     [\<lparr>exchange = ''mx2.example.com'', priority = 20\<rparr>,
                      \<lparr>exchange = ''mx1.example.com'', priority = 10\<rparr>]),
      resolveTxt = (\<lambda>d. TxtResolved [[''v=spf1 -all'']]),
      connects = (\<lambda>host. True)\<rparr>"

text \<open>A checker with every optional stage switched on, and collaborators that flag everything.\<close>

definition allStages :: EmailCheckerConfig where
  "allStages =
     \<lparr>strictValidation = False, checkMxRecord = True, checkSmtpDeliverability = True,
      enablePatternMatching = True, enableCaching = True, customPatterns = [''^x''],
      dnsValidation = allChecks\<rparr>"

definition flagged :: MatchResult where
  "flagged = \<lparr>isMatch = True, matchType = MatchExact, confidence = 100, source = Some ''list''\<rparr>"

definition hostile :: Collaborators where
  "hostile =
     \<lparr>checkAllowlist = (\<lambda>d. d = ''gmail.com''),
      checkBlacklist = (\<lambda>d. flagged),
      checkDisposableDomain = (\<lambda>d. flagged),
      analyzePatterns = (\<lambda>e l d ps. (100, [''Matches custom pattern: ^x''])),
      validateMxRecord = (\<lambda>d. Inl ''queryMx ESERVFAIL''),
      checkMxRecord = (\<lambda>d. Inr False),
      validateSmtpDeliverability = (\<lambda>e mxs. Inl ''connect ECONNREFUSED''),
      cacheGet = (\<lambda>e. None)\<rparr>"

text \<open>
  The checker after \<open>checkEmail("user@tempmail.com")\<close> has found the domain on the
  disposable list and stored its result, and \<open>addToAllowlist("tempmail.com")\<close> has been
  called since: the allowlist holds the domain and the cache still holds the result.
\<close>

definition cachedBefore :: EmailValidationResult where
  "cachedBefore =
     newResult\<lparr>EmailValidationResult.email := ''user@tempmail.com'', EmailValidationResult.isValid := True, isDisposable := True,
       EmailValidationResult.domain := ''tempmail.com'', localPart := ''user'', EmailValidationResult.matchType := MatchExact,
       EmailValidationResult.confidence := 100, EmailValidationResult.source := Some ''list''\<rparr>"

definition afterAllowlisting :: Collaborators where
  "afterAllowlisting =
     hostile\<lparr>checkAllowlist := (\<lambda>d. d = ''tempmail.com''),
       cacheGet := (\<lambda>e. if e = ''user@tempmail.com'' then Some cachedBefore else None)\<rparr>"

text \<open>
  Collaborators that flag nothing and have nothing cached, the default configuration
  with \<open>checkMxRecord\<close> on, a batch of 21 addresses, and a course of events at the gate
  after their lookups have been called: the ten lookups that run end, the ten requests
  taken from the queue are run, and they end.
\<close>

definition unflagged :: MatchResult where
  "unflagged = \<lparr>isMatch = False, matchType = MatchNone, confidence = 0, source = None\<rparr>"

definition quiet :: Collaborators where
  "quiet =
     \<lparr>checkAllowlist = (\<lambda>d. False),
      checkBlacklist = (\<lambda>d. unflagged),
      checkDisposableDomain = (\<lambda>d. unflagged),
      analyzePatterns = (\<lambda>e l d ps. (0, [])),
      validateMxRecord = (\<lambda>d. Inl ''queryMx ESERVFAIL''),
      checkMxRecord = (\<lambda>d. Inr False),
      validateSmtpDeliverability = (\<lambda>e mxs. Inl ''connect ECONNREFUSED''),
      cacheGet = (\<lambda>e. None)\<rparr>"

definition mxChecking :: EmailCheckerConfig where
  "mxChecking =
     \<lparr>strictValidation = False, checkMxRecord = True, checkSmtpDeliverability = False,
      enablePatternMatching = True, enableCaching = True, customPatterns = [],
      dnsValidation = resolverDefaults\<lparr>cacheSize := 5000\<rparr>\<rparr>"

definition batch21 :: "string list" where
  "batch21 = [''a@x.io'', ''b@x.io'', ''c@x.io'', ''d@x.io'', ''e@x.io'', ''f@x.io'', ''g@x.io'',
              ''h@x.io'', ''i@x.io'', ''j@x.io'', ''k@x.io'', ''l@x.io'', ''m@x.io'', ''n@x.io'',
              ''o@x.io'', ''p@x.io'', ''q@x.io'', ''r@x.io'', ''s@x.io'', ''t@x.io'', ''u@x.io'']"

definition afterwards :: "string GateEvent list" where
  "afterwards = map Settle (take 10 batch21) @ replicate 10 Immediate @ map Settle (drop 10 batch21)"

text \<open>A batch of twelve addresses, eleven of them distinct, with nothing cached.\<close>

definition batch :: "string list" where
  "batch = [''a@x.com'', ''b@y.com'', ''a@x.com'', ''c@x.com'', ''d@x.com'', ''e@x.com'',
            ''f@x.com'', ''g@x.com'', ''h@x.com'', ''i@x.com'', ''j@x.com'', '' K@x.com'']"

definition nothingCached :: "string \<Rightarrow> string option" where
  "nothingCached e = None"

definition echo :: "string \<Rightarrow> string option" where
  "echo e = Some e"

chapter \<open>Properties\<close>

section \<open>SMTP client\<close>

subsection \<open>The initial result\<close>

lemma emptySmtpResult_fields [simp]:
  "SmtpValidationResult.email (emptySmtpResult em) = em"
  "SmtpValidationResult.domain (emptySmtpResult em) = []"
  "\<not> SmtpValidationResult.isValid (emptySmtpResult em)"
  "\<not> isMailboxValid (emptySmtpResult em)"
  "SmtpValidationResult.mxRecord (emptySmtpResult em) = None"
  "SmtpValidationResult.responseCode (emptySmtpResult em) = None"
  "SmtpValidationResult.responseMessage (emptySmtpResult em) = None"
  "SmtpValidationResult.validationTime (emptySmtpResult em) = 0"
  "SmtpValidationResult.errors (emptySmtpResult em) = []"
  "SmtpValidationResult.warnings (emptySmtpResult em) = []"
  by (simp_all add: emptySmtpResult_def)

subsection \<open>Splitting the address\<close>

lemma split_nonempty [simp]: "split sep s \<noteq> []"
  by (induction s) (auto split: list.splits)

lemma hd_split: "hd (split CHR ''@'' em) = localPartOf em"
  by (induction em) (auto simp: localPartOf_def split: list.splits)

lemma length_split: "length (split CHR ''@'' em) < 2 \<longleftrightarrow> CHR ''@'' \<notin> set em"
  by (induction em) (auto split: list.splits)

lemma split_second: "CHR ''@'' \<in> set em \<Longrightarrow> split CHR ''@'' em ! 1 = domainOf em"
proof (induction em)
  case Nil
  then show ?case by simp
next
  case (Cons c cs)
  show ?case
  proof (cases "c = CHR ''@''")
    case True
    have "hd (split CHR ''@'' cs) = localPartOf cs" by (rule hd_split)
    with True show ?thesis
      by (cases "split CHR ''@'' cs") (auto simp: domainOf_def localPartOf_def)
  next
    case False
    with Cons show ?thesis
      by (auto simp: domainOf_def split: list.splits)
  qed
qed

lemma domainOf_no_at: "CHR ''@'' \<notin> set em \<Longrightarrow> domainOf em = []"
  by (induction em) (auto simp: domainOf_def)

lemma invalid_format_iff:
  "(hd (split CHR ''@'' em) = [] \<or> length (split CHR ''@'' em) < 2 \<or> split CHR ''@'' em ! 1 = [])
   \<longleftrightarrow> (localPartOf em = [] \<or> domainOf em = [])"
  using hd_split[of em] length_split[of em] split_second[of em] domainOf_no_at[of em]
  by auto

lemma validateEmailRun_invalid:
  assumes "localPartOf em = [] \<or> domainOf em = []"
  shows "validateEmailRun config net startTime endTime em mxOpt =
           ((emptySmtpResult em)
              \<lparr>SmtpValidationResult.errors := [''Invalid email format''],
               SmtpValidationResult.validationTime := endTime - startTime\<rparr>, [])"
proof -
  from assms invalid_format_iff[of em]
  have "hd (split CHR ''@'' em) = [] \<or> length (split CHR ''@'' em) < 2
          \<or> split CHR ''@'' em ! 1 = []"
    by blast
  then show ?thesis
    by (auto simp: validateEmailRun_def Let_def)
qed

lemma validateEmailRun_valid:
  assumes "localPartOf em \<noteq> []" and "domainOf em \<noteq> []"
  shows "validateEmailRun config net startTime endTime em mxOpt =
           (let start = (emptySmtpResult em)\<lparr>SmtpValidationResult.domain := domainOf em\<rparr>;
                run = tryServers config em net 0 (candidateServers (domainOf em) mxOpt) start []
            in ((fst run)\<lparr>SmtpValidationResult.validationTime := endTime - startTime\<rparr>, snd run))"
proof -
  from assms invalid_format_iff[of em]
  have ok: "hd (split CHR ''@'' em) \<noteq> []" "\<not> length (split CHR ''@'' em) < 2"
    "split CHR ''@'' em ! 1 \<noteq> []"
    by blast+
  from ok(2) have "CHR ''@'' \<in> set em" using length_split[of em] by blast
  then have "split CHR ''@'' em ! 1 = domainOf em" by (rule split_second)
  with ok show ?thesis
    by (simp add: validateEmailRun_def Let_def split_beta)
qed

subsection \<open>The loop over the candidate servers\<close>

lemma tryServers_mailbox:
  "isMailboxValid res0 = SmtpValidationResult.isValid res0 \<Longrightarrow>
   isMailboxValid (fst (tryServers config em net i servers res0 tried)) =
   SmtpValidationResult.isValid (fst (tryServers config em net i servers res0 tried))"
  by (induction servers arbitrary: i res0 tried) (auto split: sum.splits)

lemma attempts_length [simp]: "length (attempts config em net i servers) = length servers"
  by (induction servers arbitrary: i) auto


text \<open>The flag \<open>isMailboxValid\<close> is a copy of \<open>isValid\<close> on every result.\<close>

lemma isMailboxValid_is_isValid:
  "isMailboxValid (validateEmail config net startTime endTime em mxOpt) =
   SmtpValidationResult.isValid (validateEmail config net startTime endTime em mxOpt)"
proof (cases "localPartOf em = [] \<or> domainOf em = []")
  case True
  then show ?thesis
    by (simp add: validateEmail_def validateEmailRun_invalid)
next
  case False
  then show ?thesis
    by (simp add: validateEmail_def validateEmailRun_valid Let_def tryServers_mailbox)
qed




lemma length_warningsFor:
  "length (warningsFor atts) = length (filter (\<lambda>a. case a of Inl e \<Rightarrow> False | Inr r \<Rightarrow> True) atts)"
  by (induction atts) (auto simp: warningsFor_def split: sum.splits)

text \<open>
  The loop, in one equation: the attempts before the first success leave their warnings
  and errors, and the first success, if there is one, ends the loop and sets the flags.
\<close>

lemma tryServers_exact:
  "tryServers config em net i servers res0 tried =
     (let atts = attempts config em net i servers;
          r1 = res0\<lparr>SmtpValidationResult.errors :=
                       SmtpValidationResult.errors res0 @ errorsFor (failedAttempts atts),
                     SmtpValidationResult.warnings :=
                       SmtpValidationResult.warnings res0 @ warningsFor (failedAttempts atts)\<rparr>
      in case drop (length (failedAttempts atts)) atts of
           [] \<Rightarrow> (r1, tried @ servers)
         | a # rest \<Rightarrow>
             (r1\<lparr>SmtpValidationResult.isValid := True, isMailboxValid := True,
                 SmtpValidationResult.mxRecord := SmtpConnectionResult.mxRecord (projr a),
                 SmtpValidationResult.responseCode := SmtpConnectionResult.responseCode (projr a),
                 SmtpValidationResult.responseMessage :=
                   SmtpConnectionResult.responseMessage (projr a)\<rparr>,
              tried @ take (Suc (length (failedAttempts atts))) servers))"
proof (induction servers arbitrary: i res0 tried)
  case Nil
  then show ?case by (simp add: failedAttempts_def errorsFor_def warningsFor_def)
next
  case (Cons s ss)
  show ?case
  proof (cases "testSmtpConnection config s em (net i s)")
    case (Inl e)
    then show ?thesis
      by (simp add: Cons.IH failedAttempts_def succeeded_def errorsFor_def warningsFor_def Let_def
            split: list.splits)
  next
    case (Inr v)
    then show ?thesis
      by (simp add: Cons.IH failedAttempts_def succeeded_def errorsFor_def warningsFor_def Let_def
            split: list.splits)
  qed
qed






lemma validateEmailRun_exact:
  assumes "localPartOf em \<noteq> []" and "domainOf em \<noteq> []"
  shows "validateEmailRun config net startTime endTime em mxOpt =
     (let servers = candidateServers (domainOf em) mxOpt;
          atts = attempts config em net 0 servers;
          r1 = (emptySmtpResult em)
                 \<lparr>SmtpValidationResult.domain := domainOf em,
                  SmtpValidationResult.errors := errorsFor (failedAttempts atts),
                  SmtpValidationResult.warnings := warningsFor (failedAttempts atts),
                  SmtpValidationResult.validationTime := endTime - startTime\<rparr>
      in case drop (length (failedAttempts atts)) atts of
           [] \<Rightarrow> (r1, servers)
         | a # rest \<Rightarrow>
             (r1\<lparr>SmtpValidationResult.isValid := True, isMailboxValid := True,
                 SmtpValidationResult.mxRecord := SmtpConnectionResult.mxRecord (projr a),
                 SmtpValidationResult.responseCode := SmtpConnectionResult.responseCode (projr a),
                 SmtpValidationResult.responseMessage :=
                   SmtpConnectionResult.responseMessage (projr a)\<rparr>,
              take (Suc (length (failedAttempts atts))) servers))"
  using assms
  by (simp add: validateEmailRun_valid tryServers_exact Let_def split: list.splits)

lemmas smtp_eval =
  validateEmail_def attemptedServers_def validateEmailRun_def testSmtpConnection_def onData_def
  initialDialogue_def protocolError_def failed_def trim_def parseInt_def isWhitespace_def
  isDigit_def isHexDigit_def digitsValue_def digitValue_def defaultConfig_def crlf_def
  candidateServers_def warningOf_def Let_def

subsection \<open>The mailbox flag of a completed dialogue\<close>

text \<open>
  C1. A dialogue that completes (220, 250, 250, then a reply to RCPT TO and one to QUIT)
  should set \<open>isMailboxValid\<close> exactly when the reply to RCPT TO had code 250. Here the
  reply to RCPT TO is 550: the attempt is resolved with \<open>isDeliverable = False\<close>, and
  \<open>validateEmail\<close>, which copies \<open>isValid\<close> instead, returns \<open>isMailboxValid = True\<close>.
\<close>

theorem completed_dialogue_rcpt_rejected:
  "testSmtpConnection defaultConfig ''example.com'' ''user@example.com''
       (rcptRejected 0 ''example.com'')
     = Inr \<lparr>SmtpConnectionResult.isValid = True, SmtpConnectionResult.isDeliverable = False,
            SmtpConnectionResult.mxRecord = Some ''example.com'',
            SmtpConnectionResult.responseCode = Some (Num 221),
            SmtpConnectionResult.responseMessage = Some ''221 bye'',
            SmtpConnectionResult.error = None\<rparr>
   \<and> isMailboxValid (validateEmail defaultConfig rcptRejected 0 5 ''user@example.com'' None) = True"
  by (simp add: smtp_eval rcptRejected_def)

subsection \<open>Rejected address formats\<close>

text \<open>
  C10. When the text before the first \<open>@\<close> is empty, or the text between the first
  \<open>@\<close> and the next one (or the end) is empty or there is no \<open>@\<close> at all,
  \<open>validateEmail\<close> returns at once: \<open>isValid\<close> and \<open>isMailboxValid\<close> are false,
  \<open>domain\<close> is empty, \<open>responseCode\<close> is null, \<open>errors\<close> holds
  \<open>Invalid email format\<close>, and no server is contacted.
\<close>

theorem invalid_format_rejected:
  assumes "localPartOf em = [] \<or> domainOf em = []"
  shows "validateEmail config net startTime endTime em mxOpt =
           (emptySmtpResult em)
             \<lparr>SmtpValidationResult.errors := [''Invalid email format''],
              SmtpValidationResult.validationTime := endTime - startTime\<rparr>
         \<and> attemptedServers config net startTime endTime em mxOpt = []"
  using assms by (simp add: validateEmail_def attemptedServers_def validateEmailRun_invalid)

theorem invalid_format_rejected_witness:
  "(localPartOf ''user-at-example.com'' = [] \<or> domainOf ''user-at-example.com'' = []) \<and>
   (localPartOf ''@example.com'' = [] \<or> domainOf ''@example.com'' = []) \<and>
   (localPartOf ''user@'' = [] \<or> domainOf ''user@'' = []) \<and>
   SmtpValidationResult.errors (validateEmail defaultConfig silent 0 5 ''user-at-example.com'' None) = [''Invalid email format''] \<and>
   SmtpValidationResult.errors (validateEmail defaultConfig silent 0 5 ''@example.com'' None) = [''Invalid email format''] \<and>
   SmtpValidationResult.responseCode (validateEmail defaultConfig silent 0 5 ''user@'' None) = None \<and>
   attemptedServers defaultConfig silent 0 5 ''user@'' None = []"
proof -
  have h1: "localPartOf ''user-at-example.com'' = [] \<or> domainOf ''user-at-example.com'' = []"
    by (simp add: localPartOf_def domainOf_def)
  have h2: "localPartOf ''@example.com'' = [] \<or> domainOf ''@example.com'' = []"
    by (simp add: localPartOf_def domainOf_def)
  have h3: "localPartOf ''user@'' = [] \<or> domainOf ''user@'' = []"
    by (simp add: localPartOf_def domainOf_def)
  show ?thesis
    using h1 h2 h3
      invalid_format_rejected[OF h1, of defaultConfig silent 0 5 None]
      invalid_format_rejected[OF h2, of defaultConfig silent 0 5 None]
      invalid_format_rejected[OF h3, of defaultConfig silent 0 5 None]
    by simp
qed

subsection \<open>A rejected HELO and the result when no server succeeds\<close>





subsection \<open>The order in which servers are tried\<close>

text \<open>
  C8. The servers of a supplied list should be tried in ascending order of priority,
  whatever the order of the list; the comment above the loop says
  \<open>Try each MX server in order of priority\<close>, and \<open>validateDomain\<close> sorts the list it
  builds. \<open>validateEmail\<close> does not sort: a list that holds priority 20 before priority
  10 is tried in that order.
\<close>

theorem supplied_order_not_priority_order:
  "attemptedServers defaultConfig silent 0 5 ''user@example.com'' (Some unsortedMx)
     = [''mx2.example.com'', ''mx1.example.com''] \<and>
   map exchange (sort_key priority unsortedMx) = [''mx1.example.com'', ''mx2.example.com'']"
  by (simp add: smtp_eval silent_def unsortedMx_def)

text \<open>
  The servers tried are those of the list, in its order, up to and including the first
  that succeeds; without a list, the bare domain is the one server tried.
\<close>

lemma attempted_servers_exact:
  assumes "localPartOf em \<noteq> []" and "domainOf em \<noteq> []"
  shows "attemptedServers config net startTime endTime em mxOpt =
           take (Suc (length (failedAttempts
                   (attempts config em net 0 (candidateServers (domainOf em) mxOpt)))))
             (candidateServers (domainOf em) mxOpt)"
proof (cases "drop (length (failedAttempts
                   (attempts config em net 0 (candidateServers (domainOf em) mxOpt))))
                (attempts config em net 0 (candidateServers (domainOf em) mxOpt))")
  case Nil
  then have "length (candidateServers (domainOf em) mxOpt) \<le> length (failedAttempts
                   (attempts config em net 0 (candidateServers (domainOf em) mxOpt)))"
    by simp
  with Nil assms show ?thesis
    by (simp add: attemptedServers_def validateEmailRun_exact Let_def)
next
  case (Cons a rest)
  with assms show ?thesis
    by (simp add: attemptedServers_def validateEmailRun_exact Let_def)
qed

lemma bare_domain_when_absent:
  assumes "localPartOf em \<noteq> []" and "domainOf em \<noteq> []"
  shows "attemptedServers config net startTime endTime em None = [domainOf em]"
  using assms by (simp add: attempted_servers_exact candidateServers_def)

section \<open>DNS resolver\<close>

subsection \<open>The retry loop\<close>

lemma retryLoop_trace:
  "\<exists>m. attempt - 1 \<le> m \<and> m \<le> max (attempt - 1) (retries config) \<and>
       (attempt \<le> retries config \<longrightarrow> attempt \<le> m) \<and>
       snd (retryLoop config ns d attempt lastError trace) =
         trace @ concat (map (\<lambda>a. if a < m
                              then [Resolve a, Wait (min (1000 * 2 ^ nat (a - 1)) 5000)]
                              else [Resolve a]) [attempt..m]) \<and>
       ((\<forall>a. attempt \<le> a \<and> a \<le> retries config \<longrightarrow> isl (raceMx ns d a)) \<longrightarrow>
          m = max (attempt - 1) (retries config) \<and>
          fst (retryLoop config ns d attempt lastError trace) =
            Inl (if attempt \<le> retries config then projl (raceMx ns d (retries config))
                 else (case lastError of None \<Rightarrow> ''MX resolution failed'' | Some err \<Rightarrow> err)))"
proof (induction config ns d attempt lastError trace rule: retryLoop.induct)
  case (1 config ns d attempt lastError trace)
  let ?f = "\<lambda>m a. if a < m then [Resolve a, Wait (min (1000 * 2 ^ nat (a - 1)) 5000)] else [Resolve a]"
  let ?fail = "\<lambda>attempt. \<forall>a. attempt \<le> a \<and> a \<le> retries config \<longrightarrow> isl (raceMx ns d a)"
  show ?case
  proof (cases "attempt \<le> retries config")
    case False
    then have "retryLoop config ns d attempt lastError trace =
        (Inl (case lastError of None \<Rightarrow> ''MX resolution failed'' | Some err \<Rightarrow> err), trace)"
      by (subst retryLoop.simps) simp
    with False show ?thesis
      by (intro exI[of _ "attempt - 1"]) simp
  next
    case le: True
    show ?thesis
    proof (cases "raceMx ns d attempt")
      case (Inr records)
      with le have nf: "\<not> ?fail attempt" by (auto intro: exI[of _ attempt])
      have "retryLoop config ns d attempt lastError trace = (Inr records, trace @ [Resolve attempt])"
        using le Inr by (subst retryLoop.simps) simp
      with nf le show ?thesis
        by (intro exI[of _ attempt]) (simp only: simp_thms, simp)
    next
      case (Inl err)
      show ?thesis
      proof (cases "attempt < retries config")
        case True
        have unfold: "retryLoop config ns d attempt lastError trace =
            retryLoop config ns d (attempt + 1) (Some err)
              (trace @ [Resolve attempt, Wait (min (1000 * 2 ^ nat (attempt - 1)) 5000)])"
          using le Inl True by (subst retryLoop.simps) simp
        from "1.IH"(1)[OF le Inl True] obtain m where
          m: "attempt \<le> m" "m \<le> max attempt (retries config)" "attempt + 1 \<le> m"
             "snd (retryLoop config ns d (attempt + 1) (Some err)
                (trace @ [Resolve attempt, Wait (min (1000 * 2 ^ nat (attempt - 1)) 5000)])) =
              (trace @ [Resolve attempt, Wait (min (1000 * 2 ^ nat (attempt - 1)) 5000)]) @
                concat (map (?f m) [attempt + 1..m])"
             "?fail (attempt + 1) \<longrightarrow> m = max attempt (retries config) \<and>
              fst (retryLoop config ns d (attempt + 1) (Some err)
                (trace @ [Resolve attempt, Wait (min (1000 * 2 ^ nat (attempt - 1)) 5000)])) =
              Inl (projl (raceMx ns d (retries config)))"
          using True by auto
        have up: "[attempt..m] = attempt # [attempt + 1..m]"
          using m(1) by (simp add: upto_rec1)
        have f: "?fail attempt \<longrightarrow> ?fail (attempt + 1)" by auto
        show ?thesis
        proof (intro exI[of _ m] conjI impI)
          show "attempt - 1 \<le> m" using m by simp
          show "m \<le> max (attempt - 1) (retries config)" using m True by simp
          show "attempt \<le> m" using m by simp
          show "snd (retryLoop config ns d attempt lastError trace) =
                  trace @ concat (map (?f m) [attempt..m])"
            using m up by (simp add: unfold)
          assume a: "?fail attempt"
          with f m(5) show "m = max (attempt - 1) (retries config)" using True by simp
          from a f m(5) show "fst (retryLoop config ns d attempt lastError trace) =
            Inl (if attempt \<le> retries config then projl (raceMx ns d (retries config))
                 else (case lastError of None \<Rightarrow> ''MX resolution failed'' | Some err \<Rightarrow> err))"
            using le by (simp add: unfold)
        qed
      next
        case False
        with le have eq: "attempt = retries config" by simp
        have "retryLoop config ns d attempt lastError trace =
            retryLoop config ns d (attempt + 1) (Some err) (trace @ [Resolve attempt])"
          using le Inl False by (subst retryLoop.simps) simp
        also have "\<dots> = (Inl err, trace @ [Resolve attempt])"
          using eq by (subst retryLoop.simps) simp
        finally have "retryLoop config ns d attempt lastError trace =
            (Inl err, trace @ [Resolve attempt])" .
        with le Inl eq show ?thesis
          by (intro exI[of _ attempt]) simp
      qed
    qed
  qed
qed

lemma count_backoffSchedule:
  "length (filter isResolve (backoffSchedule m)) = nat m"
proof -
  have "length (filter isResolve
          (concat (map (\<lambda>attempt. if attempt < m
                              then [Resolve attempt, Wait (min (1000 * 2 ^ nat (attempt - 1)) 5000)]
                              else [Resolve attempt]) xs))) = length xs" for xs
    by (induction xs) (auto simp: isResolve_def)
  then show ?thesis by (simp add: backoffSchedule_def)
qed

lemma retryLoop_result:
  "fst (retryLoop config ns d attempt lastError trace) =
     (case List.find (\<lambda>a. \<not> isl (raceMx ns d a)) [attempt..retries config] of
        Some a \<Rightarrow> Inr (projr (raceMx ns d a))
      | None \<Rightarrow> Inl (if attempt \<le> retries config then projl (raceMx ns d (retries config))
                      else (case lastError of None \<Rightarrow> ''MX resolution failed''
                            | Some err \<Rightarrow> err)))"
proof (induction config ns d attempt lastError trace rule: retryLoop.induct)
  case (1 config ns d attempt lastError trace)
  show ?case
  proof (cases "attempt \<le> retries config")
    case False
    then show ?thesis by (subst retryLoop.simps) simp
  next
    case le: True
    then have up: "[attempt..retries config] = attempt # [attempt + 1..retries config]"
      by (simp add: upto_rec1)
    show ?thesis
    proof (cases "raceMx ns d attempt")
      case (Inr records)
      with le up show ?thesis by (subst retryLoop.simps) simp
    next
      case (Inl err)
      show ?thesis
      proof (cases "attempt < retries config")
        case True
        with "1.IH"(1)[OF le Inl True] le Inl up show ?thesis
          by (subst retryLoop.simps) simp
      next
        case False
        with le have eq: "attempt = retries config" by simp
        have "retryLoop config ns d attempt lastError trace =
            retryLoop config ns d (attempt + 1) (Some err) (trace @ [Resolve attempt])"
          using le Inl False by (subst retryLoop.simps) simp
        also have "\<dots> = (Inl err, trace @ [Resolve attempt])"
          using eq by (subst retryLoop.simps) simp
        finally show ?thesis using Inl eq by simp
      qed
    qed
  qed
qed

lemma retryLoop_firstAnswer:
  "fst (retryLoop config ns d 1 None []) =
     (case firstAnswer config ns d of
        Some records \<Rightarrow> Inr records
      | None \<Rightarrow> Inl (thrownMessage config ns d))"
  by (simp add: retryLoop_result firstAnswer_def thrownMessage_def split: option.splits)

lemma firstAnswer_None_iff:
  "firstAnswer config ns d = None \<longleftrightarrow>
     (\<forall>a. 1 \<le> a \<and> a \<le> retries config \<longrightarrow> isl (raceMx ns d a))"
proof -
  have "firstAnswer config ns d = None \<longleftrightarrow>
          List.find (\<lambda>a. \<not> isl (raceMx ns d a)) [1..retries config] = None"
    by (simp add: firstAnswer_def split: option.splits)
  then show ?thesis by (auto simp: find_None_iff)
qed

lemma retryLoop_schedule:
  "\<exists>m. 0 \<le> m \<and> m \<le> max 0 (retries config) \<and>
       snd (retryLoop config ns d 1 None []) = backoffSchedule m \<and>
       (firstAnswer config ns d = None \<longrightarrow> m = max 0 (retries config))"
  using retryLoop_trace[of 1 config ns d None "[]"]
proof (elim exE conjE, goal_cases)
  case (1 m)
  then show ?case
    by (intro exI[of _ m]) (simp add: backoffSchedule_def firstAnswer_None_iff)
qed

subsection \<open>The lookup behind the race\<close>

text \<open>Whatever the name servers do, the race is lost to the timer.\<close>

lemma raceMx_timeout: "raceMx ns d attempt = Inl ''DNS timeout''"
  by (simp add: raceMx_def resolveMxAsync_def split: MxLookup.splits)

lemma firstAnswer_None: "firstAnswer config ns d = None"
  by (simp add: firstAnswer_None_iff raceMx_timeout)

lemma thrownMessage_timeout:
  "thrownMessage config ns d =
     (if 1 \<le> retries config then ''DNS timeout'' else ''MX resolution failed'')"
  by (simp add: thrownMessage_def raceMx_timeout)

lemma retryLoop_throws:
  "fst (retryLoop config ns d 1 None []) = Inl (thrownMessage config ns d)"
  by (simp add: retryLoop_firstAnswer firstAnswer_None)

text \<open>The checks of the TXT records do not return.\<close>

lemma txt_checks_pending:
  "checkSpfRecord ns d = None" "checkDmarcRecord ns d = None"
  by (simp_all add: checkSpfRecord_def checkDmarcRecord_def hasTxtPrefix_def resolveTxtAsync_def
        split: TxtLookup.splits)

subsection \<open>The result of validateDomain\<close>

lemma emptyDnsResult_fields [simp]:
  "DnsValidationResult.errors (emptyDnsResult d) = []" "DnsValidationResult.warnings (emptyDnsResult d) = []"
  "\<not> DnsValidationResult.hasMx (emptyDnsResult d)" "DnsValidationResult.mxRecords (emptyDnsResult d) = []"
  by (simp_all add: emptyDnsResult_def)

text \<open>
  The branch of \<open>validateDomain\<close> for an answered lookup sorts the records by priority,
  and it is the branch that would report missing records as a warning.
\<close>

lemma mxStage_sorts:
  "sorted (map priority (DnsValidationResult.mxRecords (mxStage config ns records r0)))
     \<or> records = []"
  by (simp add: mxStage_def Let_def)

lemma mxStage_warns:
  "DnsValidationResult.warnings (mxStage config ns [] r0) =
     DnsValidationResult.warnings r0 @ [''No MX records found'']"
  by (simp add: mxStage_def)

text \<open>
  A call admitted by the gate returns, and what it returns is the result of a failed
  lookup, whatever the name servers do.
\<close>

lemma validateDomain_without_answer:
  assumes "active < concurrency config"
  shows "validateDomain config active ns startTime endTime d =
           Some ((emptyDnsResult d)
                   \<lparr>DnsValidationResult.errors :=
                      [''DNS resolution failed: '' @ thrownMessage config ns d],
                    DnsValidationResult.validationTime := endTime - startTime\<rparr>)"
proof -
  obtain out tr where run: "retryLoop config ns d 1 None [] = (out, tr)"
    by (cases "retryLoop config ns d 1 None []")
  with retryLoop_throws[of config ns d] have "out = Inl (thrownMessage config ns d)"
    by simp
  with assms run show ?thesis
    by (simp add: validateDomain_def validateDomainRun_def resolveMxWithRetry_def)
qed

lemmas dns_eval =
  validateDomain_def validateDomainRun_def resolveMxWithRetry_def retryLoop.simps raceMx_def
  resolveMxAsync_def resolveTxtAsync_def
  mxStage_def spfStage_def dmarcStage_def checkSpfRecord_def checkDmarcRecord_def
  hasTxtPrefix_def startsWith_def toLowerCase_def lowerChar_def emptyDnsResult_def
  resolverDefaults_def allChecks_def unreachable_def noMxRecords_def healthy_def firstAnswer_def
  thrownMessage_def backoffSchedule_def Let_def

text \<open>
  C4. \<open>validateDomain\<close> with the SPF and DMARC checks on, for a domain that exists and
  has no MX, no SPF and no DMARC record, and with name servers that answer at once. The
  absence of the records should give warnings and no error. The promise of
  \<open>resolveMxAsync\<close> stays pending, each of the three attempts ends with the timer's
  \<open>DNS timeout\<close>, and the result holds the error \<open>DNS resolution failed: DNS timeout\<close>
  and no warning. The same result comes back for a domain whose records are all there.
\<close>

theorem missing_records_reported_as_error:
  "validateDomain allChecks 0 noMxRecords 0 7 ''example.com'' =
     Some ((emptyDnsResult ''example.com'')
             \<lparr>DnsValidationResult.errors := [''DNS resolution failed: DNS timeout''],
              DnsValidationResult.validationTime := 7\<rparr>) \<and>
   map_option DnsValidationResult.warnings
     (validateDomain allChecks 0 noMxRecords 0 7 ''example.com'') = Some [] \<and>
   map_option DnsValidationResult.errors
     (validateDomain allChecks 0 healthy 0 7 ''example.com'') =
     Some [''DNS resolution failed: DNS timeout'']"
proof -
  have h: "(0::int) < concurrency allChecks"
    by (simp add: allChecks_def resolverDefaults_def)
  have t: "thrownMessage allChecks ns ''example.com'' = ''DNS timeout''" for ns
    by (simp add: thrownMessage_timeout allChecks_def resolverDefaults_def)
  show ?thesis
    by (simp add: validateDomain_without_answer[OF h] t)
qed

text \<open>
  C7. With a free slot of the gate, \<open>validateDomain\<close> returns a result, and the actions
  of MX resolution are those of \<open>backoffSchedule m\<close> for a number \<open>m\<close> of attempts that
  is at most \<open>retries\<close>: attempts 1 to \<open>m\<close> in order, and after each attempt but the last
  a pause of \<open>min(1000 * 2^(attempt - 1), 5000)\<close> milliseconds. When every attempt
  fails, all \<open>retries\<close> attempts are made and the result has \<open>hasMx = False\<close>, no records,
  and the one error \<open>DNS resolution failed: ...\<close>.
\<close>

theorem retries_backoff_and_exhaustion:
  assumes "active < concurrency config"
  shows "\<exists>res m. validateDomainRun config active ns startTime endTime d =
                   Some (res, backoffSchedule m) \<and>
           0 \<le> m \<and> m \<le> max 0 (retries config) \<and>
           length (filter isResolve (backoffSchedule m)) \<le> nat (retries config) \<and>
           ((\<forall>a. 1 \<le> a \<and> a \<le> retries config \<longrightarrow> isl (raceMx ns d a)) \<longrightarrow>
              m = max 0 (retries config) \<and> \<not> DnsValidationResult.hasMx res \<and> DnsValidationResult.mxRecords res = [] \<and>
              DnsValidationResult.errors res = [''DNS resolution failed: '' @ thrownMessage config ns d])"
proof -
  obtain out tr where run: "retryLoop config ns d 1 None [] = (out, tr)"
    by (cases "retryLoop config ns d 1 None []")
  from retryLoop_schedule[of config ns d] run obtain m where
    m: "0 \<le> m" "m \<le> max 0 (retries config)" "tr = backoffSchedule m"
       "firstAnswer config ns d = None \<longrightarrow> m = max 0 (retries config)"
    by auto
  from retryLoop_throws[of config ns d] run have out: "out = Inl (thrownMessage config ns d)"
    by simp
  define res where "res = (emptyDnsResult d)
      \<lparr>DnsValidationResult.errors := [''DNS resolution failed: '' @ thrownMessage config ns d],
       DnsValidationResult.validationTime := endTime - startTime\<rparr>"
  have res: "validateDomainRun config active ns startTime endTime d =
               Some (res, backoffSchedule m)"
    using assms run m(3) out
    by (simp add: validateDomainRun_def resolveMxWithRetry_def res_def)
  have fail: "\<not> DnsValidationResult.hasMx res" "DnsValidationResult.mxRecords res = []"
    "DnsValidationResult.errors res = [''DNS resolution failed: '' @ thrownMessage config ns d]"
    by (simp_all add: res_def)
  have all: "m = max 0 (retries config)"
    using m(4) by (simp add: firstAnswer_None)
  have "length (filter isResolve (backoffSchedule m)) \<le> nat (retries config)"
    using m by (simp add: count_backoffSchedule)
  with res fail m all show ?thesis
    by (intro exI[of _ res] exI[of _ m]) simp
qed

theorem retries_backoff_and_exhaustion_witness:
  "(0::int) < concurrency resolverDefaults \<and>
   list_all (\<lambda>a. isl (raceMx unreachable ''example.com'' a)) [1, 2, 3] \<and>
   backoffSchedule 3 = [Resolve 1, Wait 1000, Resolve 2, Wait 2000, Resolve 3] \<and>
   validateDomainRun resolverDefaults 0 unreachable 0 7 ''example.com'' =
     Some ((emptyDnsResult ''example.com'')
             \<lparr>DnsValidationResult.errors := [''DNS resolution failed: DNS timeout''],
              DnsValidationResult.validationTime := 7\<rparr>,
           [Resolve 1, Wait 1000, Resolve 2, Wait 2000, Resolve 3])"
proof -
  have h: "(0::int) < concurrency resolverDefaults"
    by (simp add: resolverDefaults_def)
  have f: "\<forall>a. 1 \<le> a \<and> a \<le> retries resolverDefaults \<longrightarrow> isl (raceMx unreachable ''example.com'' a)"
    by (simp add: raceMx_def resolveMxAsync_def unreachable_def)
  have f': "list_all (\<lambda>a. isl (raceMx unreachable ''example.com'' a)) [1, 2, 3]"
    by (simp add: raceMx_def resolveMxAsync_def unreachable_def)
  have s: "backoffSchedule 3 = [Resolve 1, Wait 1000, Resolve 2, Wait 2000, Resolve 3]"
    by (simp add: backoffSchedule_def upto_rec1)
  have r: "max 0 (retries resolverDefaults) = 3" by (simp add: resolverDefaults_def)
  from retries_backoff_and_exhaustion[OF h, of unreachable 0 7 "''example.com''"] f r
  obtain res where
    "validateDomainRun resolverDefaults 0 unreachable 0 7 ''example.com'' =
       Some (res, backoffSchedule 3)"
    by (elim exE conjE) simp
  moreover have "validateDomainRun resolverDefaults 0 unreachable 0 7 ''example.com'' =
     Some ((emptyDnsResult ''example.com'')
             \<lparr>DnsValidationResult.errors := [''DNS resolution failed: DNS timeout''],
              DnsValidationResult.validationTime := 7\<rparr>,
           [Resolve 1, Wait 1000, Resolve 2, Wait 2000, Resolve 3])"
    by (simp add: dns_eval)
  ultimately show ?thesis using h f' s by simp
qed

subsection \<open>The cache\<close>

lemma mapGet_mapSet: "mapGet (mapSet k e m) k = Some e"
  by (induction m) (auto simp: mapGet_def)

lemma mapGet_mapSet_other: "k' \<noteq> k \<Longrightarrow> mapGet (mapSet k e m) k' = mapGet m k'"
  by (induction m) (auto simp: mapGet_def)

lemma mapGet_mapDelete: "mapGet (mapDelete k m) k = None"
  by (induction m) (auto simp: mapGet_def mapDelete_def)


lemma stale_entry_removed:
  "\<not> t' - t < storedTtl config ttlArg \<Longrightarrow>
   mapGet (snd (getCachedResult (setCachedResult config dnsCache key v ttlArg t) key t')) key = None"
  by (simp add: getCachedResult_def setCachedResult_def Let_def mapGet_mapSet mapGet_mapDelete)


subsection \<open>The concurrency gate\<close>

lemma starved_step: "starved g \<Longrightarrow> \<not> isCall ev \<Longrightarrow> starved (gateStep 1 g ev)"
  by (cases ev) (auto simp: starved_def isCall_def Let_def split: list.splits dest: notin_set_remove1)

lemma starved_run: "starved g \<Longrightarrow> list_all (\<lambda>ev. \<not> isCall ev) evs \<Longrightarrow> starved (gateRun 1 g evs)"
  by (induction evs arbitrary: g) (auto simp: gateRun_def starved_step)

text \<open>
  C2. A gate of \<open>maxConcurrent = 1\<close> receives three calls before any operation ends.
  The first runs and the other two are queued. Whatever happens afterwards, short of a new
  call, the third operation is never started and its promise is never settled: only the
  end of an operation started by its own call takes a request from the queue.
\<close>

theorem third_call_never_settles:
  assumes "list_all (\<lambda>ev. \<not> isCall ev) evs"
  shows "3 \<notin> set (settled (gateRun 1 (gateRun 1 idle [Call 1, Call 2, Call (3::nat)]) evs)) \<and>
         3 \<in> set (requestQueue (gateRun 1 (gateRun 1 idle [Call 1, Call 2, Call 3]) evs))"
proof -
  have "starved (gateRun 1 idle [Call 1, Call 2, Call 3])"
    by (simp add: gateRun_def idle_def starved_def)
  from starved_run[OF this assms] show ?thesis
    by (auto simp: starved_def)
qed

theorem third_call_never_settles_witness:
  "list_all (\<lambda>ev. \<not> isCall ev) [Settle (1::nat), Immediate, Settle 2, Settle 3, Immediate] \<and>
   gateRun 1 (gateRun 1 idle [Call 1, Call 2, Call (3::nat)])
       [Settle 1, Immediate, Settle 2, Settle 3, Immediate] =
     \<lparr>activeRequests = 0, requestQueue = [3], running = [], immediates = [],
      resumed = [], settled = [1, 2]\<rparr> \<and>
   3 \<notin> set (settled (gateRun 1 (gateRun 1 idle [Call 1, Call 2, Call (3::nat)])
                          [Settle 1, Immediate, Settle 2, Settle 3, Immediate]))"
proof -
  have h: "list_all (\<lambda>ev. \<not> isCall ev) [Settle (1::nat), Immediate, Settle 2, Settle 3, Immediate]"
    by (simp add: isCall_def)
  have "gateRun 1 (gateRun 1 idle [Call 1, Call 2, Call (3::nat)])
       [Settle 1, Immediate, Settle 2, Settle 3, Immediate] =
     \<lparr>activeRequests = 0, requestQueue = [3], running = [], immediates = [],
      resumed = [], settled = [1, 2]\<rparr>"
    by (simp add: gateRun_def idle_def)
  with h third_call_never_settles[OF h] show ?thesis by simp
qed

text \<open>
  The bound on simultaneous operations also fails: an operation resumed from the queue is
  not counted in \<open>activeRequests\<close>, so a call that arrives while it runs is started at once.
\<close>

lemma gate_bound_exceeded:
  "executing (gateRun 1 idle [Call 1, Call 2, Settle 1, Immediate, Call (3::nat)]) = 2"
  by (simp add: gateRun_def idle_def executing_def)

text \<open>A request parked behind one running operation is run when that operation ends.\<close>

lemma parked_call_is_run:
  "resolveMxSettled (resolverDefaults\<lparr>concurrency := 1\<rparr>)
     [Call 1, Call 2, Settle 1, Immediate, Settle (2::nat)] 2 ns d = Some (Inl ''DNS timeout'')"
  by (simp add: resolveMxSettled_def settles_def gateRun_def idle_def retryLoop_throws
        thrownMessage_timeout resolverDefaults_def)

text \<open>
  The end of an operation started by its own call takes one request from the queue, and
  nothing else does: a request with as many requests before it as there are such
  operations stays in the queue for good.
\<close>

lemma waitsBehind_step:
  "waitsBehind z g \<Longrightarrow> \<not> isCall ev \<Longrightarrow> waitsBehind z (gateStep k g ev)"
proof (cases ev)
  case (Call x1)
  assume "\<not> isCall ev" with Call show ?thesis by (simp add: isCall_def)
next
  case (Settle operation)
  assume w: "waitsBehind z g"
  show ?thesis
  proof (cases "operation \<in> set (running g)")
    case True
    with w have ne: "operation \<noteq> z" by (auto simp: waitsBehind_def)
    from True have pos: "0 < length (running g)" by (cases "running g") auto
    from w obtain n rest where q: "requestQueue g = n # rest"
      by (cases "requestQueue g") (auto simp: waitsBehind_def)
    from w q pos have nz: "n \<noteq> z" by (auto simp: waitsBehind_def)
    from w q nz True ne show ?thesis
      by (auto simp: Settle waitsBehind_def Let_def length_remove1 dest: notin_set_remove1)
  next
    case False
    with w show ?thesis
      by (auto simp: Settle waitsBehind_def dest: notin_set_remove1)
  qed
next
  case Immediate
  assume "waitsBehind z g"
  then show ?thesis
    by (auto simp: Immediate waitsBehind_def split: list.splits)
qed

lemma waitsBehind_run:
  "waitsBehind z g \<Longrightarrow> list_all (\<lambda>ev. \<not> isCall ev) evs \<Longrightarrow> waitsBehind z (gateRun k g evs)"
  by (induction evs arbitrary: g) (auto simp: gateRun_def waitsBehind_step)

lemma gateRun_append: "gateRun k g (xs @ ys) = gateRun k (gateRun k g xs) ys"
  by (simp add: gateRun_def)

lemma no_call_settle: "list_all (\<lambda>ev. \<not> isCall ev) (map Settle xs)"
  by (induction xs) (simp_all add: isCall_def)

lemma no_call_immediate: "list_all (\<lambda>ev. \<not> isCall ev) (replicate n Immediate)"
  by (induction n) (simp_all add: isCall_def)

section \<open>The checker\<close>

subsection \<open>The allowlist\<close>

lemma getPooledResult_empty [simp]: "getPooledResult [] = newResult"
  by (simp add: getPooledResult_def)

text \<open>
  C5, as stated: every address whose domain is on the allowlist comes back with
  \<open>isAllowed = True\<close>. An address answered from the result cache comes back as it was
  stored, before the allowlist is looked at: here the stored result says disposable and
  not allowed. And an address that fails \<open>validateEmailFormat\<close> comes back with an
  error and \<open>isAllowed = False\<close>, the allowlist not being looked at either.
\<close>

theorem cached_result_precedes_allowlist:
  "checkAllowlist afterAllowlisting (snd (parseEmail ''user@tempmail.com'')) \<and>
   checkEmail allStages afterAllowlisting [] 0 3 ''user@tempmail.com'' =
     (cachedBefore\<lparr>EmailValidationResult.validationTime := 3\<rparr>, []) \<and>
   \<not> isAllowed (fst (checkEmail allStages afterAllowlisting [] 0 3 ''user@tempmail.com'')) \<and>
   isDisposable (fst (checkEmail allStages afterAllowlisting [] 0 3 ''user@tempmail.com'')) \<and>
   checkAllowlist hostile (snd (parseEmail ''us(er@gmail.com'')) \<and>
   checkEmail allStages hostile [] 0 3 ''us(er@gmail.com'' =
     (newResult\<lparr>EmailValidationResult.email := ''us(er@gmail.com'',
         EmailValidationResult.errors := [''Invalid email format''],
         EmailValidationResult.validationTime := 3\<rparr>, []) \<and>
   \<not> isAllowed (fst (checkEmail allStages hostile [] 0 3 ''us(er@gmail.com''))"
proof -
  have a: "checkAllowlist afterAllowlisting (snd (parseEmail ''user@tempmail.com''))"
    by code_simp
  have b: "checkEmail allStages afterAllowlisting [] 0 3 ''user@tempmail.com'' =
     (cachedBefore\<lparr>EmailValidationResult.validationTime := 3\<rparr>, [])"
    by code_simp
  have c: "checkAllowlist hostile (snd (parseEmail ''us(er@gmail.com''))"
    by code_simp
  have d: "checkEmail allStages hostile [] 0 3 ''us(er@gmail.com'' =
     (newResult\<lparr>EmailValidationResult.email := ''us(er@gmail.com'',
         EmailValidationResult.errors := [''Invalid email format''],
         EmailValidationResult.validationTime := 3\<rparr>, [])"
    by code_simp
  show ?thesis
    unfolding b d using a c by (simp add: cachedBefore_def newResult_def)
qed

text \<open>
  C5, amended. For an input that passes the quick pattern and \<open>validateEmailFormat\<close>
  and is not answered from the result cache, and whose domain is on the allowlist,
  \<open>checkEmail\<close> returns right after the allowlist check: the result is the new object
  with the address, its parts, \<open>isValid\<close>, \<open>isAllowed = True\<close>, \<open>matchType = exact\<close>
  and \<open>confidence = 100\<close>, so \<open>isDisposable\<close> and \<open>isBlacklisted\<close> are false and there
  is no \<open>dnsValidation\<close> and no \<open>smtpValidation\<close>; the allowlist check is the only call
  made to a collaborator.
\<close>

theorem allowlist_short_circuit:
  assumes pool: "resultPool = []"
    and pat: "EMAIL_PATTERN (trim (toLowerCase input))"
    and miss: "enableCaching config \<longrightarrow> cacheGet co (trim (toLowerCase input)) = None"
    and fmt: "validateEmailFormat (strictValidation config) (trim (toLowerCase input)) = None"
    and allow: "checkAllowlist co (snd (parseEmail (trim (toLowerCase input))))"
  shows "checkEmail config co resultPool startTime endTime input =
           (newResult\<lparr>EmailValidationResult.email := trim (toLowerCase input),
               EmailValidationResult.localPart := fst (parseEmail (trim (toLowerCase input))),
               EmailValidationResult.domain := snd (parseEmail (trim (toLowerCase input))),
               EmailValidationResult.isValid := True, isAllowed := True,
               EmailValidationResult.matchType := MatchExact,
               EmailValidationResult.confidence := 100,
               EmailValidationResult.validationTime := endTime - startTime\<rparr>,
            [AllowlistCheck (snd (parseEmail (trim (toLowerCase input))))]) \<and>
         isAllowed (fst (checkEmail config co resultPool startTime endTime input)) \<and>
         EmailValidationResult.confidence
           (fst (checkEmail config co resultPool startTime endTime input)) = 100 \<and>
         EmailValidationResult.matchType
           (fst (checkEmail config co resultPool startTime endTime input)) = MatchExact \<and>
         \<not> isDisposable (fst (checkEmail config co resultPool startTime endTime input)) \<and>
         \<not> isBlacklisted (fst (checkEmail config co resultPool startTime endTime input)) \<and>
         EmailValidationResult.dnsValidation
           (fst (checkEmail config co resultPool startTime endTime input)) = None \<and>
         smtpValidation (fst (checkEmail config co resultPool startTime endTime input)) = None"
proof -
  have "checkEmail config co resultPool startTime endTime input =
           (newResult\<lparr>EmailValidationResult.email := trim (toLowerCase input),
               EmailValidationResult.localPart := fst (parseEmail (trim (toLowerCase input))),
               EmailValidationResult.domain := snd (parseEmail (trim (toLowerCase input))),
               EmailValidationResult.isValid := True, isAllowed := True,
               EmailValidationResult.matchType := MatchExact,
               EmailValidationResult.confidence := 100,
               EmailValidationResult.validationTime := endTime - startTime\<rparr>,
            [AllowlistCheck (snd (parseEmail (trim (toLowerCase input))))])"
    using assms
    by (auto simp: checkEmail_def performEmailCheck_def Let_def split_beta)
  then show ?thesis by (simp add: newResult_def)
qed

theorem allowlist_short_circuit_witness:
  "EMAIL_PATTERN (trim (toLowerCase ''  User@Gmail.com '')) \<and>
   cacheGet hostile (trim (toLowerCase ''  User@Gmail.com '')) = None \<and>
   validateEmailFormat (strictValidation allStages) (trim (toLowerCase ''  User@Gmail.com '')) = None \<and>
   checkAllowlist hostile (snd (parseEmail (trim (toLowerCase ''  User@Gmail.com '')))) \<and>
   checkEmail allStages hostile [] 0 3 ''  User@Gmail.com '' =
     (newResult\<lparr>EmailValidationResult.email := ''user@gmail.com'',
         EmailValidationResult.localPart := ''user'',
         EmailValidationResult.domain := ''gmail.com'',
         EmailValidationResult.isValid := True, isAllowed := True,
         EmailValidationResult.matchType := MatchExact,
         EmailValidationResult.confidence := 100,
         EmailValidationResult.validationTime := 3\<rparr>,
      [AllowlistCheck ''gmail.com''])"
proof -
  have n: "trim (toLowerCase ''  User@Gmail.com '') = ''user@gmail.com''"
    by code_simp
  have pe: "parseEmail ''user@gmail.com'' = (''user'', ''gmail.com'')"
    by code_simp
  have h1: "EMAIL_PATTERN (trim (toLowerCase ''  User@Gmail.com ''))"
    by code_simp
  have h2: "enableCaching allStages \<longrightarrow>
            cacheGet hostile (trim (toLowerCase ''  User@Gmail.com '')) = None"
    and h2': "cacheGet hostile (trim (toLowerCase ''  User@Gmail.com '')) = None"
    by (simp_all add: hostile_def)
  have h3: "validateEmailFormat (strictValidation allStages)
              (trim (toLowerCase ''  User@Gmail.com '')) = None"
    by code_simp
  have h4: "checkAllowlist hostile (snd (parseEmail (trim (toLowerCase ''  User@Gmail.com ''))))"
    by (simp add: n pe hostile_def)
  from allowlist_short_circuit[OF refl h1 h2 h3 h4, of 0 3]
  have "checkEmail allStages hostile [] 0 3 ''  User@Gmail.com '' =
     (newResult\<lparr>EmailValidationResult.email := ''user@gmail.com'',
         EmailValidationResult.localPart := ''user'',
         EmailValidationResult.domain := ''gmail.com'',
         EmailValidationResult.isValid := True, isAllowed := True,
         EmailValidationResult.matchType := MatchExact,
         EmailValidationResult.confidence := 100,
         EmailValidationResult.validationTime := 3\<rparr>,
      [AllowlistCheck ''gmail.com''])"
    by (simp add: n pe)
  with h1 h2' h3 h4 show ?thesis by simp
qed

text \<open>Off the allowlist, the same checker goes through every later stage.\<close>

lemma later_stages_run:
  "snd (checkEmail allStages hostile [] 0 3 ''user@tempmail.com'') =
     [AllowlistCheck ''tempmail.com'', BlacklistCheck ''tempmail.com'',
      DisposableCheck ''tempmail.com'', PatternAnalysis ''user@tempmail.com'',
      DnsValidation ''tempmail.com'', SmtpValidation ''user@tempmail.com'' None]"
  by code_simp

subsection \<open>Batches\<close>

lemma set_uniqueOf [simp]: "set (uniqueOf xs) = set xs"
  by (simp add: uniqueOf_def)

lemma concat_chunksOf: "0 < n \<Longrightarrow> concat (chunksOf n xs) = xs"
proof (induction n xs rule: chunksOf.induct)
  case (1 n xs)
  show ?case
  proof (cases "xs = []")
    case True
    then show ?thesis by (subst chunksOf.simps) simp
  next
    case False
    with 1 show ?thesis by (subst chunksOf.simps) simp
  qed
qed

lemma setAll_apply:
  "setAll check chunk m e = (if e \<in> set chunk then check e else m e)"
  by (induction chunk arbitrary: m) (auto simp: setAll_def)

lemma fold_setAll_apply:
  "fold (setAll check) chunks m e = (if e \<in> set (concat chunks) then check e else m e)"
  by (induction chunks arbitrary: m) (auto simp: setAll_apply)

lemma set_concat_mset:
  assumes "mset xs = mset ys"
  shows "set (concat xs) = set (concat ys)"
proof -
  from assms have "set xs = set ys" by (rule mset_eq_setD)
  then show ?thesis by simp
qed

lemma chunkSizeOf_pos: "0 < chunkSizeOf xs"
  by (simp add: chunkSizeOf_def)

text \<open>
  Whatever the order in which the chunks complete, and provided every check of the batch
  settles, \<open>checkEmailsBatch\<close> returns one result for each input, in the order of the
  inputs: at each position the result due to the normalised address there (the cached
  result, or else the result of its one check). Inputs that are equal after lower-casing
  and trimming therefore get the same result.
\<close>

lemma batch_preserves_input_order:
  assumes order: "mset completed =
      mset (chunksOf (chunkSizeOf (uncachedOf caching cached emails))
             (uncachedOf caching cached emails))"
    and settle: "\<forall>e \<in> set (uncachedOf caching cached emails). check e \<noteq> None"
  shows "checkEmailsBatch caching cached check completed emails =
           Some (map (resultFor caching cached check) emails) \<and>
         list_all (\<lambda>r. r \<noteq> None) (map (resultFor caching cached check) emails)"
proof -
  let ?unc = "uncachedOf caching cached emails"
  let ?m0 = "\<lambda>e. if e \<in> set (uniqueOf (normalizedOf emails)) then cachedOf caching cached e else None"
  have "set (concat completed) = set (concat (chunksOf (chunkSizeOf ?unc) ?unc))"
    by (rule set_concat_mset[OF order])
  also have "concat (chunksOf (chunkSizeOf ?unc) ?unc) = ?unc"
    by (rule concat_chunksOf[OF chunkSizeOf_pos])
  finally have cov: "set (concat completed) = set ?unc" .
  have each: "fold (setAll check) completed ?m0 (trim (toLowerCase e)) =
                resultFor caching cached check e" if "e \<in> set emails" for e
  proof -
    let ?n = "trim (toLowerCase e)"
    from that have n: "?n \<in> set (normalizedOf emails)" by (auto simp: normalizedOf_def)
    show ?thesis
    proof (cases "cachedOf caching cached ?n")
      case None
      with n have "?n \<in> set ?unc" by (simp add: uncachedOf_def)
      with cov None show ?thesis by (simp add: fold_setAll_apply resultFor_def)
    next
      case (Some r)
      then have "?n \<notin> set ?unc" by (simp add: uncachedOf_def)
      with cov Some n show ?thesis by (simp add: fold_setAll_apply resultFor_def)
    qed
  qed
  have some: "resultFor caching cached check e \<noteq> None" if "e \<in> set emails" for e
  proof (cases "cachedOf caching cached (trim (toLowerCase e))")
    case None
    from that have "trim (toLowerCase e) \<in> set (normalizedOf emails)" by (auto simp: normalizedOf_def)
    with None have "trim (toLowerCase e) \<in> set ?unc" by (simp add: uncachedOf_def)
    with settle None show ?thesis by (simp add: resultFor_def)
  next
    case (Some r)
    then show ?thesis by (simp add: resultFor_def)
  qed
  have "\<not> list_ex (\<lambda>e. check e = None) ?unc"
    using settle by (simp add: list_ex_iff)
  moreover have "map (fold (setAll check) completed ?m0) (normalizedOf emails) =
                 map (resultFor caching cached check) emails"
    using each by (simp add: normalizedOf_def)
  ultimately have "checkEmailsBatch caching cached check completed emails =
           Some (map (resultFor caching cached check) emails)"
    by (simp add: checkEmailsBatch_def Let_def)
  moreover have "list_all (\<lambda>r. r \<noteq> None) (map (resultFor caching cached check) emails)"
    using some by (simp add: list_all_iff)
  ultimately show ?thesis by simp
qed

lemma batch_order_example:
  "mset [[''k@x.com''],
         [''a@x.com'', ''b@y.com'', ''c@x.com'', ''d@x.com'', ''e@x.com'', ''f@x.com'',
          ''g@x.com'', ''h@x.com'', ''i@x.com'', ''j@x.com'']] =
     mset (chunksOf (chunkSizeOf (uncachedOf True nothingCached batch))
            (uncachedOf True nothingCached batch)) \<and>
   list_all (\<lambda>e. echo e \<noteq> None) (uncachedOf True nothingCached batch) \<and>
   checkEmailsBatch True nothingCached echo
     [[''k@x.com''],
      [''a@x.com'', ''b@y.com'', ''c@x.com'', ''d@x.com'', ''e@x.com'', ''f@x.com'',
       ''g@x.com'', ''h@x.com'', ''i@x.com'', ''j@x.com'']] batch =
     Some [Some ''a@x.com'', Some ''b@y.com'', Some ''a@x.com'', Some ''c@x.com'',
           Some ''d@x.com'', Some ''e@x.com'', Some ''f@x.com'', Some ''g@x.com'',
           Some ''h@x.com'', Some ''i@x.com'', Some ''j@x.com'', Some ''k@x.com'']"
proof -
  have u: "uncachedOf True nothingCached batch =
      [''a@x.com'', ''b@y.com'', ''c@x.com'', ''d@x.com'', ''e@x.com'', ''f@x.com'',
       ''g@x.com'', ''h@x.com'', ''i@x.com'', ''j@x.com'', ''k@x.com'']"
    by code_simp
  have c: "chunksOf (chunkSizeOf (uncachedOf True nothingCached batch))
              (uncachedOf True nothingCached batch) =
      [[''a@x.com'', ''b@y.com'', ''c@x.com'', ''d@x.com'', ''e@x.com'', ''f@x.com'',
        ''g@x.com'', ''h@x.com'', ''i@x.com'', ''j@x.com''], [''k@x.com'']]"
    by code_simp
  have h1: "mset [[''k@x.com''],
         [''a@x.com'', ''b@y.com'', ''c@x.com'', ''d@x.com'', ''e@x.com'', ''f@x.com'',
          ''g@x.com'', ''h@x.com'', ''i@x.com'', ''j@x.com'']] =
     mset (chunksOf (chunkSizeOf (uncachedOf True nothingCached batch))
            (uncachedOf True nothingCached batch))"
    unfolding c by (simp add: add_mset_commute)
  have h2: "\<forall>e \<in> set (uncachedOf True nothingCached batch). echo e \<noteq> None"
    by (simp add: echo_def)
  have r: "map (resultFor True nothingCached echo) batch =
      [Some ''a@x.com'', Some ''b@y.com'', Some ''a@x.com'', Some ''c@x.com'',
       Some ''d@x.com'', Some ''e@x.com'', Some ''f@x.com'', Some ''g@x.com'',
       Some ''h@x.com'', Some ''i@x.com'', Some ''j@x.com'', Some ''k@x.com'']"
    by code_simp
  from batch_preserves_input_order[OF h1 h2] r h1 h2 show ?thesis
    by (simp add: list_all_iff)
qed

text \<open>Every address of the batch is looked up, and none is cached.\<close>

lemma batch21_uncached: "uncachedOf True (cacheGet quiet) batch21 = batch21"
  by code_simp

lemma lookups21: "lookupsOf mxChecking (withResolver mxChecking ns quiet) batch21 = batch21"
  by (simp add: lookupsOf_def batch21_def) code_simp


text \<open>
  C6. A checker with \<open>checkMxRecord\<close> on and the default configuration otherwise is
  given a batch of 21 addresses, none of them cached or on a list, and should return one
  result for each of them. Their lookups reach the gate of the resolver together: ten run
  and eleven are queued, and the ends of the ten take ten requests from the queue.
  Whatever happens at the gate afterwards, short of a call from outside the batch, the
  lookup of the last address is never run, its check never settles, and the batch
  returns nothing.
\<close>

theorem batch_waits_for_starved_lookup:
  assumes "list_all (\<lambda>ev. \<not> isCall ev) evs"
  shows "checkEmailsBatchRun mxChecking quiet ns startTime endTime evs completed batch21 = None"
proof -
  have g0: "waitsBehind ''u@x.io'' (gateRun 10 idle (map Call batch21))"
    by (simp add: batch21_def gateRun_def idle_def waitsBehind_def)
  from waitsBehind_run[OF g0 assms]
  have "''u@x.io'' \<notin> set (settled (gateRun 10 (gateRun 10 idle (map Call batch21)) evs))"
    by (simp add: waitsBehind_def)
  then have pending: "\<not> settles 10 (map Call batch21 @ evs) ''u@x.io''"
    by (simp add: settles_def gateRun_append)
  have c: "concurrency (EmailCheckerConfig.dnsValidation mxChecking) = 10"
    and e: "enableCaching mxChecking"
    by (simp_all add: mxChecking_def resolverDefaults_def)
  have mem: "''u@x.io'' \<in> set batch21"
    by (simp add: batch21_def)
  define check where "check = (\<lambda>e. if e \<in> set batch21 \<and> \<not> settles 10 (map Call batch21 @ evs) e
                         then None
                         else Some (fst (checkEmail mxChecking (withResolver mxChecking ns quiet) []
                                           startTime endTime e)))"
  have "check ''u@x.io'' = None"
    using mem pending by (simp add: check_def)
  with mem have ex: "list_ex (\<lambda>e. check e = None) batch21"
    unfolding list_ex_iff by (rule bexI[rotated])
  have "checkEmailsBatchRun mxChecking quiet ns startTime endTime evs completed batch21 =
          checkEmailsBatch True (cacheGet quiet) check completed batch21"
    by (simp add: checkEmailsBatchRun_def Let_def e c batch21_uncached lookups21 check_def)
  also have "\<dots> = None"
    using ex by (simp add: checkEmailsBatch_def Let_def batch21_uncached)
  finally show ?thesis .
qed

theorem batch_waits_for_starved_lookup_witness:
  "list_all (\<lambda>ev. \<not> isCall ev) afterwards \<and>
   requestQueue (gateRun 10 idle (map Call batch21 @ afterwards)) = [''u@x.io''] \<and>
   checkEmailsBatchRun mxChecking quiet noMxRecords 0 9 afterwards (chunksOf 10 batch21) batch21 = None"
proof -
  have h: "list_all (\<lambda>ev. \<not> isCall ev) afterwards"
    by (simp add: afterwards_def no_call_settle no_call_immediate)
  have q: "requestQueue (gateRun 10 idle (map Call batch21 @ afterwards)) = [''u@x.io'']"
    by code_simp
  from batch_waits_for_starved_lookup[OF h, of noMxRecords 0 9 "chunksOf 10 batch21"] h q
  show ?thesis by simp
qed

end
